theory Spec2Isabelle
  imports Complex_Main
begin

section \<open>The ledger store\<close>

text \<open>
  The store is the SQLite schema of \<^verbatim>\<open>db/database.js\<close>: the tables \<^verbatim>\<open>offerings\<close>,
  \<^verbatim>\<open>daily_summaries\<close>, \<^verbatim>\<open>pending_queue\<close> and \<^verbatim>\<open>categories\<close>.

  \<^item> Statuses are the strings of the source (\<^verbatim>\<open>'PENDING'\<close>, \<^verbatim>\<open>'SUCCESSFUL'\<close>, \<^verbatim>\<open>'FAILED'\<close>);
    the column is plain \<^verbatim>\<open>TEXT\<close>, so any string can be stored.
  \<^item> Amounts are \<^verbatim>\<open>REAL\<close> columns. The development is parametric in the amount type \<open>'a\<close> and
    uses only its \<open>+\<close>, \<open>0\<close> and \<open>\<le>\<close>, with no algebraic law, so nothing depends on
    addition being exact or associative.
  \<^item> The timestamps of \<^verbatim>\<open>offerings\<close> are the strings \<^verbatim>\<open>YYYY-MM-DD HH:MM:SS\<close> that the
    source splits at the blank. The timestamps of \<^verbatim>\<open>pending_queue\<close> are only compared and
    shifted by minutes, and are kept as seconds (an \<open>int\<close>), the order of which is the
    order of the timestamp strings.
  \<^item> A table is the list of its rows in insertion (rowid) order; \<^verbatim>\<open>daily_summaries\<close>, with
    its \<^verbatim>\<open>UNIQUE(summary_date, category_code)\<close>, is a map from that pair.
\<close>

record 'a offering =
  reference_number :: string
  momo_reference_id :: string
  financial_txn_id :: "string option"
  category_code :: string
  amount :: 'a
  currency :: string
  phone_number :: string
  member_name :: "string option"
  member_id :: "string option"
  payer_message :: "string option"
  status :: string
  created_at :: string
  updated_at :: string

record 'a daily_summary =
  total_count :: int
  total_amount :: 'a
  success_count :: int
  failed_count :: int

text \<open>The columns of \<^verbatim>\<open>pending_queue\<close> carry the prefix \<open>q_\<close>: several of them share
  their name with a column of \<^verbatim>\<open>offerings\<close>, and \<open>id\<close> is the identity function of HOL.\<close>

record 'a pending_item =
  q_id :: int
  q_reference_number :: string
  q_momo_reference_id :: string
  q_amount :: 'a
  q_phone_number :: string
  q_payer_message :: "string option"
  q_retry_count :: int
  q_last_attempt_at :: "int option"
  q_created_at :: int

record 'a ledger =
  offerings :: "'a offering list"
  daily_summaries :: "string \<times> string \<rightharpoonup> 'a daily_summary"
  pending_queue :: "'a pending_item list"
  queue_seq :: int
  categories :: "(string \<times> string) list"

text \<open>The store before any request: no row but the category catalogue.\<close>

definition empty_ledger :: "(string \<times> string) list \<Rightarrow> 'a ledger" where
  "empty_ledger cats =
     \<lparr>offerings = [], daily_summaries = Map.empty, pending_queue = [], queue_seq = 0,
      categories = cats\<rparr>"

section \<open>The status transition engine\<close>

text \<open>\<^verbatim>\<open>SELECT * FROM offerings WHERE reference_number = ?\<close>, first row.\<close>

definition getOfferingByRef :: "'a ledger \<Rightarrow> string \<Rightarrow> 'a offering option" where
  "getOfferingByRef db referenceNumber =
     find (\<lambda>row. reference_number row = referenceNumber) (offerings db)"

text \<open>The JavaScript \<^verbatim>\<open>v || null\<close> on an optional string: \<^verbatim>\<open>undefined\<close>, \<^verbatim>\<open>null\<close> and the
  empty string all give \<^verbatim>\<open>null\<close>.\<close>

definition or_null :: "string option \<Rightarrow> string option" where
  "or_null v = (case v of None \<Rightarrow> None | Some s \<Rightarrow> if s = [] then None else Some s)"

text \<open>\<^verbatim>\<open>UPDATE offerings SET status = ?, financial_txn_id = ?, updated_at = CURRENT_TIMESTAMP
  WHERE reference_number = ?\<close>; the clock reading is the argument \<open>now\<close>.\<close>

definition updateOfferingStatus ::
  "string \<Rightarrow> string option \<Rightarrow> string \<Rightarrow> string \<Rightarrow> 'a ledger \<Rightarrow> 'a ledger" where
  "updateOfferingStatus newStatus financialTxnId referenceNumber now db =
     db\<lparr>offerings :=
          map (\<lambda>row. if reference_number row = referenceNumber
                      then row\<lparr>status := newStatus, financial_txn_id := financialTxnId,
                               updated_at := now\<rparr>
                      else row)
              (offerings db)\<rparr>"

text \<open>\<^verbatim>\<open>UPDATE daily_summaries SET success_count = success_count + ?, failed_count =
  failed_count + ? WHERE summary_date = ? AND category_code = ?\<close>: no row, no change.\<close>

definition updateDailySummaryCounters ::
  "int \<Rightarrow> int \<Rightarrow> string \<Rightarrow> string \<Rightarrow> 'a ledger \<Rightarrow> 'a ledger" where
  "updateDailySummaryCounters successDelta failedDelta summaryDate categoryCode db =
     (case daily_summaries db (summaryDate, categoryCode) of
        None \<Rightarrow> db
      | Some row \<Rightarrow>
          db\<lparr>daily_summaries := (daily_summaries db)((summaryDate, categoryCode) \<mapsto>
                row\<lparr>success_count := success_count row + successDelta,
                     failed_count := failed_count row + failedDelta\<rparr>)\<rparr>)"

definition getStatusDelta :: "string \<Rightarrow> string \<Rightarrow> int \<times> int" where
  "getStatusDelta oldStatus newStatus =
     (let successDelta = 0;
          failedDelta = 0;
          successDelta = (if oldStatus = ''SUCCESSFUL'' then successDelta - 1 else successDelta);
          failedDelta = (if oldStatus = ''FAILED'' then failedDelta - 1 else failedDelta);
          successDelta = (if newStatus = ''SUCCESSFUL'' then successDelta + 1 else successDelta);
          failedDelta = (if newStatus = ''FAILED'' then failedDelta + 1 else failedDelta)
      in (successDelta, failedDelta))"

text \<open>\<^verbatim>\<open>created_at.split(' ')[0]\<close>: the text before the first blank.\<close>

definition summaryDate_of :: "string \<Rightarrow> string" where
  "summaryDate_of created = takeWhile (\<lambda>c. c \<noteq> CHR '' '') created"

record 'a status_result =
  res_offering :: "'a offering"
  changed :: bool

text \<open>\<^verbatim>\<open>updateStatusTxn\<close>, one database transaction. The result \<open>None\<close> is the \<^verbatim>\<open>null\<close> of
  an unknown reference. The returned row carries the settlement id as it was passed, the
  stored row carries \<^verbatim>\<open>financialTxnId || null\<close>.\<close>

definition updateStatusTxn ::
  "string \<Rightarrow> string \<Rightarrow> string option \<Rightarrow> string \<Rightarrow> 'a ledger \<Rightarrow>
     'a status_result option \<times> 'a ledger" where
  "updateStatusTxn referenceNumber newStatus financialTxnId now db =
     (case getOfferingByRef db referenceNumber of
        None \<Rightarrow> (None, db)
      | Some offering \<Rightarrow>
          let oldStatus = status offering in
          if oldStatus = newStatus
          then (Some \<lparr>res_offering = offering, changed = False\<rparr>, db)
          else
            let db1 = updateOfferingStatus newStatus (or_null financialTxnId)
                        referenceNumber now db;
                summaryDate = summaryDate_of (created_at offering);
                (successDelta, failedDelta) = getStatusDelta oldStatus newStatus;
                db2 = updateDailySummaryCounters successDelta failedDelta summaryDate
                        (category_code offering) db1
            in (Some \<lparr>res_offering = offering\<lparr>status := newStatus,
                                                  financial_txn_id := financialTxnId\<rparr>,
                       changed = True\<rparr>, db2))"

section \<open>The webhook driver\<close>

text \<open>The JSON body of \<^verbatim>\<open>POST /api/callbacks/momo\<close>; an absent key is \<open>None\<close>.\<close>

record callback_body =
  externalId :: "string option"
  cb_status :: "string option"
  financialTransactionId :: "string option"

text \<open>The answers of the handler: 400, 404, 200 and, from its \<^verbatim>\<open>catch\<close>, 500.\<close>

datatype callback_response =
  CbBadRequest string
  | CbNotFound string
  | CbOk
  | CbInternalError string

fun callback_code :: "callback_response \<Rightarrow> nat" where
  "callback_code (CbBadRequest _) = 400"
| "callback_code (CbNotFound _) = 404"
| "callback_code CbOk = 200"
| "callback_code (CbInternalError _) = 500"

text \<open>\<^verbatim>\<open>router.post('/momo')\<close>. \<^verbatim>\<open>!externalId\<close> holds of an absent and of an empty string.\<close>

definition post_callback_momo ::
  "callback_body \<Rightarrow> string \<Rightarrow> 'a ledger \<Rightarrow> callback_response \<times> 'a ledger" where
  "post_callback_momo body now db =
     (case (or_null (externalId body), or_null (cb_status body)) of
        (Some ext, Some st) \<Rightarrow>
          let validStatuses = [''SUCCESSFUL'', ''FAILED'', ''PENDING''] in
          if st \<notin> set validStatuses
          then (CbBadRequest (''Invalid status: '' @ st), db)
          else
            (case updateStatusTxn ext st (financialTransactionId body) now db of
               (None, db') \<Rightarrow> (CbNotFound ''Offering not found'', db')
             | (Some result, db') \<Rightarrow> (CbOk, db'))
      | _ \<Rightarrow> (CbBadRequest ''Missing externalId or status'', db))"

section \<open>The poll driver\<close>

text \<open>What \<^verbatim>\<open>momoService.checkStatus\<close> resolves to, and the handler's answers. The payment
  client is a parameter of the handler: a function from the correlation id to either the
  message of the error it throws (\<open>Inl\<close>) or the status object (\<open>Inr\<close>).\<close>

record momo_status =
  ms_status :: "string option"
  ms_financialTransactionId :: "string option"

datatype poll_response =
  PollNotFound string
  | PollOk (p_status: string) (p_financialTxnId: "string option") (p_message: string)
      (p_momoError: "string option")
  | PollInternalError string

text \<open>\<^verbatim>\<open>a || b\<close> on optional strings.\<close>

definition or_else :: "string option \<Rightarrow> string option \<Rightarrow> string option" where
  "or_else a b = (case or_null a of None \<Rightarrow> b | Some s \<Rightarrow> Some s)"

text \<open>\<^verbatim>\<open>router.get('/:referenceNumber/status')\<close>.\<close>

definition get_offering_status ::
  "(string \<Rightarrow> string + momo_status) \<Rightarrow> string \<Rightarrow> string \<Rightarrow> 'a ledger \<Rightarrow>
     poll_response \<times> 'a ledger" where
  "get_offering_status checkStatus referenceNumber now db =
     (case getOfferingByRef db referenceNumber of
        None \<Rightarrow>
          (PollNotFound (''Offering with reference '' @ [CHR 0x27] @ referenceNumber @ [CHR 0x27]
             @ '' not found''), db)
      | Some offering \<Rightarrow>
          if status offering = ''SUCCESSFUL'' \<or> status offering = ''FAILED''
          then (PollOk (status offering) (financial_txn_id offering)
                  (''Status: '' @ status offering) None, db)
          else
            (case checkStatus (momo_reference_id offering) of
               Inl err \<Rightarrow>
                 (PollOk (status offering) (financial_txn_id offering)
                    ''Unable to reach MoMo API. Current status from database.'' (Some err), db)
             | Inr momoStatus \<Rightarrow>
                 let newStatus = or_null (ms_status momoStatus);
                     financialTxnId = or_null (ms_financialTransactionId momoStatus);
                     db' = (case newStatus of
                              None \<Rightarrow> db
                            | Some st \<Rightarrow>
                                if st \<noteq> status offering
                                then snd (updateStatusTxn referenceNumber st financialTxnId now db)
                                else db);
                     shown = (case newStatus of None \<Rightarrow> status offering | Some st \<Rightarrow> st)
                 in (PollOk shown (or_else financialTxnId (financial_txn_id offering))
                       (''Status: '' @ shown) None, db')))"

section \<open>Creation\<close>

text \<open>A reading of the JavaScript clock in the server's local time zone:
  \<^verbatim>\<open>getFullYear()\<close>, \<^verbatim>\<open>getMonth()\<close> (from 0) and \<^verbatim>\<open>getDate()\<close>.\<close>

record local_date =
  fullYear :: nat
  month0 :: nat
  date :: nat

definition digit_char :: "nat \<Rightarrow> char" where
  "digit_char d = ''0123456789'' ! d"

text \<open>\<^verbatim>\<open>String(n)\<close> of a natural number.\<close>

fun string_of_nat :: "nat \<Rightarrow> string" where
  "string_of_nat n =
     (if n < 10 then [digit_char n] else string_of_nat (n div 10) @ [digit_char (n mod 10)])"

declare string_of_nat.simps [simp del]

definition padStart :: "nat \<Rightarrow> char \<Rightarrow> string \<Rightarrow> string" where
  "padStart n c s = replicate (n - length s) c @ s"

text \<open>\<^verbatim>\<open>getTodayDateString\<close> of \<^verbatim>\<open>utils/helpers.js\<close>, on a clock reading.\<close>

definition getTodayDateString :: "local_date \<Rightarrow> string" where
  "getTodayDateString now =
     (let year = string_of_nat (fullYear now);
          month = padStart 2 (CHR ''0'') (string_of_nat (month0 now + 1));
          day = padStart 2 (CHR ''0'') (string_of_nat (date now))
      in year @ ''-'' @ month @ ''-'' @ day)"

text \<open>\<^verbatim>\<open>SELECT COUNT(*) FROM offerings WHERE category_code = ? AND DATE(created_at) = ?\<close>.
  On a timestamp \<^verbatim>\<open>YYYY-MM-DD HH:MM:SS\<close> the \<^verbatim>\<open>DATE\<close> of SQLite is the text before the blank.\<close>

definition countTodayByCategory :: "'a ledger \<Rightarrow> string \<Rightarrow> string \<Rightarrow> nat" where
  "countTodayByCategory db categoryCode todayStr =
     length (filter (\<lambda>row. category_code row = categoryCode
                            \<and> summaryDate_of (created_at row) = todayStr) (offerings db))"

definition generateReference :: "local_date \<Rightarrow> 'a ledger \<Rightarrow> string \<Rightarrow> string" where
  "generateReference now db categoryCode =
     (let year = string_of_nat (fullYear now);
          month = padStart 2 (CHR ''0'') (string_of_nat (month0 now + 1));
          day = padStart 2 (CHR ''0'') (string_of_nat (date now));
          todayStr = year @ ''-'' @ month @ ''-'' @ day;
          count = countTodayByCategory db categoryCode todayStr;
          seq = padStart 3 (CHR ''0'') (string_of_nat (count + 1))
      in categoryCode @ ''-'' @ year @ ''-'' @ month @ day @ ''-'' @ seq)"

text \<open>What a creation reads from outside the store: the clock of \<^verbatim>\<open>generateReference\<close>, the
  random UUID, the clock of \<^verbatim>\<open>getTodayDateString\<close> (both in local time), and the
  \<^verbatim>\<open>CURRENT_TIMESTAMP\<close> of SQLite (in UTC) that fills \<^verbatim>\<open>created_at\<close>.\<close>

record create_env =
  ref_clock :: local_date
  uuid :: string
  today_clock :: local_date
  db_clock :: string

datatype db_error = UniqueViolation | ForeignKeyViolation

text \<open>\<^verbatim>\<open>INSERT INTO offerings ... VALUES (?, ..., 'PENDING')\<close> under the constraints of the
  schema: both identifiers \<^verbatim>\<open>UNIQUE\<close>, the category a foreign key.\<close>

definition insertOffering ::
  "string \<Rightarrow> string \<Rightarrow> string \<Rightarrow> 'a \<Rightarrow> string \<Rightarrow> string option \<Rightarrow> string option \<Rightarrow>
     string option \<Rightarrow> string \<Rightarrow> 'a ledger \<Rightarrow> db_error + 'a ledger" where
  "insertOffering refNumber momoRefId category amt phone memberName memberId note now db =
     (if refNumber \<in> set (map reference_number (offerings db))
         \<or> momoRefId \<in> set (map momo_reference_id (offerings db))
      then Inl UniqueViolation
      else if category \<notin> set (map fst (categories db))
      then Inl ForeignKeyViolation
      else Inr (db\<lparr>offerings := offerings db @
                  [\<lparr>reference_number = refNumber, momo_reference_id = momoRefId,
                    financial_txn_id = None, category_code = category, amount = amt,
                    currency = ''GHS'', phone_number = phone, member_name = memberName,
                    member_id = memberId, payer_message = note, status = ''PENDING'',
                    created_at = now, updated_at = now\<rparr>]\<rparr>))"

text \<open>\<^verbatim>\<open>INSERT INTO daily_summaries ... VALUES (?, ?, 1, ?) ON CONFLICT ... DO UPDATE SET
  total_count = total_count + 1, total_amount = total_amount + excluded.total_amount\<close>.\<close>

definition upsertDailySummary ::
  "string \<Rightarrow> string \<Rightarrow> 'a::plus \<Rightarrow> 'a ledger \<Rightarrow> 'a ledger" where
  "upsertDailySummary summaryDate categoryCode amt db =
     db\<lparr>daily_summaries := (daily_summaries db)((summaryDate, categoryCode) \<mapsto>
          (case daily_summaries db (summaryDate, categoryCode) of
             None \<Rightarrow> \<lparr>total_count = 1, total_amount = amt, success_count = 0,
                      failed_count = 0\<rparr>
           | Some row \<Rightarrow> row\<lparr>total_count := total_count row + 1,
                              total_amount := total_amount row + amt\<rparr>))\<rparr>"

record 'a offering_data =
  d_phone :: string
  d_amount :: 'a
  d_category :: string
  d_memberName :: "string option"
  d_note :: "string option"

text \<open>\<^verbatim>\<open>createOfferingTxn\<close>, one database transaction: a constraint error rolls it back and
  is thrown to the caller (\<open>Inl\<close>).\<close>

definition createOfferingTxn ::
  "'a offering_data \<Rightarrow> create_env \<Rightarrow> ('a::plus) ledger \<Rightarrow>
     db_error + ((string \<times> string) \<times> 'a ledger)" where
  "createOfferingTxn data env db =
     (let refNumber = generateReference (ref_clock env) db (d_category data);
          momoRefId = uuid env;
          todayStr = getTodayDateString (today_clock env)
      in case insertOffering refNumber momoRefId (d_category data) (d_amount data)
                (d_phone data) (or_null (d_memberName data)) None (or_null (d_note data))
                (db_clock env) db of
           Inl e \<Rightarrow> Inl e
         | Inr db1 \<Rightarrow>
             Inr ((refNumber, momoRefId),
                  upsertDailySummary todayStr (d_category data) (d_amount data) db1))"

text \<open>The body of \<^verbatim>\<open>POST /api/offerings\<close>. The amount is given as \<^verbatim>\<open>parseFloat\<close> sees it:
  absent (a falsy value), not a number (\<^verbatim>\<open>NaN\<close>), or a number.\<close>

datatype 'a raw_amount = AmountMissing | AmountNaN | AmountNum 'a

record 'a create_body =
  b_phone :: "string option"
  b_amount :: "'a raw_amount"
  b_category :: "string option"
  b_memberName :: "string option"
  b_note :: "string option"

text \<open>The argument of \<^verbatim>\<open>momoService.requestToPay\<close>, and what the call does: it resolves
  (the provider accepted the request) or throws an error with a message.\<close>

record 'a pay_request =
  pr_amount :: 'a
  pr_phone :: string
  pr_referenceNumber :: string
  pr_message :: string
  pr_momoReferenceId :: string

datatype pay_outcome = PayAccepted | PayFailed string

datatype create_response =
  CrBadRequest string
  | CrAccepted (cr_referenceNumber: string) (cr_momoReferenceId: string) (cr_status: string)
      (cr_momoError: "string option")
  | CrInternalError string

definition getCategoryByCode :: "'a ledger \<Rightarrow> string \<Rightarrow> (string \<times> string) option" where
  "getCategoryByCode db code = find (\<lambda>c. fst c = code) (categories db)"

text \<open>\<^verbatim>\<open>xs.join(', ')\<close>.\<close>

fun join_comma :: "string list \<Rightarrow> string" where
  "join_comma [] = []"
| "join_comma [x] = x"
| "join_comma (x # y # ys) = x @ '', '' @ join_comma (y # ys)"

text \<open>\<^verbatim>\<open>INSERT INTO pending_queue (reference_number, momo_reference_id, amount, phone_number,
  payer_message)\<close>: the id from the \<^verbatim>\<open>AUTOINCREMENT\<close> sequence, \<^verbatim>\<open>retry_count\<close> 0, no last
  attempt; the reference is a foreign key into \<^verbatim>\<open>offerings\<close>.\<close>

definition insertPendingQueue ::
  "string \<Rightarrow> string \<Rightarrow> 'a \<Rightarrow> string \<Rightarrow> string option \<Rightarrow> int \<Rightarrow> 'a ledger \<Rightarrow>
     db_error + 'a ledger" where
  "insertPendingQueue refNumber momoRefId amt phone message now db =
     (if refNumber \<notin> set (map reference_number (offerings db))
      then Inl ForeignKeyViolation
      else Inr (db\<lparr>pending_queue := pending_queue db @
                  [\<lparr>q_id = queue_seq db + 1, q_reference_number = refNumber,
                    q_momo_reference_id = momoRefId, q_amount = amt, q_phone_number = phone,
                    q_payer_message = message, q_retry_count = 0, q_last_attempt_at = None,
                    q_created_at = now\<rparr>],
                 queue_seq := queue_seq db + 1\<rparr>))"

text \<open>\<^verbatim>\<open>router.post('/')\<close>. The payment client is the parameter \<open>requestToPay\<close>;
  \<open>queue_clock\<close> is the \<^verbatim>\<open>CURRENT_TIMESTAMP\<close> of the queue insert. An error thrown by
  \<^verbatim>\<open>createOfferingTxn\<close> reaches the outer \<^verbatim>\<open>catch\<close> (500); one thrown by the queue insert
  is caught and logged.\<close>

definition post_offerings ::
  "('a pay_request \<Rightarrow> pay_outcome) \<Rightarrow> create_env \<Rightarrow> int \<Rightarrow> 'a create_body \<Rightarrow>
     ('a::{plus,zero,ord}) ledger \<Rightarrow> create_response \<times> 'a ledger" where
  "post_offerings requestToPay env queue_clock body db =
     (case or_null (b_phone body) of
        None \<Rightarrow> (CrBadRequest ''Phone number is required'', db)
      | Some phone \<Rightarrow>
     (if b_amount body = AmountMissing
      then (CrBadRequest ''Amount is required'', db)
      else
     (case or_null (b_category body) of
        None \<Rightarrow> (CrBadRequest ''Category is required'', db)
      | Some category \<Rightarrow>
     (case b_amount body of
        AmountNum parsedAmount \<Rightarrow>
          if parsedAmount \<le> 0
          then (CrBadRequest ''Amount must be a positive number'', db)
          else
            (case getCategoryByCode db category of
               None \<Rightarrow>
                 (CrBadRequest (''Invalid category '' @ [CHR 0x27] @ category @ [CHR 0x27]
                    @ ''. Valid categories: '' @ join_comma (map fst (categories db))), db)
             | Some cat \<Rightarrow>
                 (case createOfferingTxn
                         \<lparr>d_phone = phone, d_amount = parsedAmount, d_category = category,
                          d_memberName = b_memberName body, d_note = b_note body\<rparr> env db of
                    Inl e \<Rightarrow> (CrInternalError ''Internal server error'', db)
                  | Inr ((refNumber, momoRefId), db1) \<Rightarrow>
                      let message = (case or_null (b_note body) of
                                       None \<Rightarrow> snd cat @ '' Offering''
                                     | Some n \<Rightarrow> n)
                      in
                      (case requestToPay
                              \<lparr>pr_amount = parsedAmount, pr_phone = phone,
                               pr_referenceNumber = refNumber, pr_message = message,
                               pr_momoReferenceId = momoRefId\<rparr> of
                         PayAccepted \<Rightarrow> (CrAccepted refNumber momoRefId ''PENDING'' None, db1)
                       | PayFailed err \<Rightarrow>
                           let db2 = (case insertPendingQueue refNumber momoRefId parsedAmount
                                             phone (Some message) queue_clock db1 of
                                        Inl queueErr \<Rightarrow> db1
                                      | Inr queued \<Rightarrow> queued)
                           in (CrAccepted refNumber momoRefId ''PENDING'' (or_null (Some err)),
                               db2))))
      | _ \<Rightarrow> (CrBadRequest ''Amount must be a positive number'', db)))))"

section \<open>The retry worker\<close>

definition MAX_RETRIES :: int where "MAX_RETRIES = 5"
definition COOLDOWN_MINUTES :: int where "COOLDOWN_MINUTES = 2"
definition BATCH_SIZE :: nat where "BATCH_SIZE = 10"

text \<open>The \<^verbatim>\<open>WHERE\<close> clause of \<^verbatim>\<open>getPendingItems\<close>; \<open>now\<close> is the clock of SQLite in
  seconds, \<^verbatim>\<open>datetime('now', '-2 minutes')\<close> is \<open>now - 2 * 60\<close>.\<close>

definition eligible :: "int \<Rightarrow> int \<Rightarrow> 'a pending_item \<Rightarrow> bool" where
  "eligible maxRetries now item \<longleftrightarrow>
     q_retry_count item < maxRetries
     \<and> (case q_last_attempt_at item of
          None \<Rightarrow> True
        | Some t \<Rightarrow> t < now - COOLDOWN_MINUTES * 60)"

text \<open>\<^verbatim>\<open>getPendingItems.all(maxRetries, limit)\<close>: \<^verbatim>\<open>ORDER BY created_at ASC LIMIT ?\<close>. Rows
  of equal \<^verbatim>\<open>created_at\<close> are kept in rowid order, one of the orders SQL allows. The query
  selects six columns of each row; the model returns the whole row.\<close>

definition getPendingItems ::
  "int \<Rightarrow> nat \<Rightarrow> int \<Rightarrow> 'a pending_item list \<Rightarrow> 'a pending_item list" where
  "getPendingItems maxRetries limit now queue =
     take limit (sort_key q_created_at (filter (eligible maxRetries now) queue))"

definition deleteQueueItem :: "int \<Rightarrow> 'a ledger \<Rightarrow> 'a ledger" where
  "deleteQueueItem i db =
     db\<lparr>pending_queue := filter (\<lambda>item. q_id item \<noteq> i) (pending_queue db)\<rparr>"

definition incrementRetry :: "int \<Rightarrow> int \<Rightarrow> 'a ledger \<Rightarrow> 'a ledger" where
  "incrementRetry i now db =
     db\<lparr>pending_queue :=
          map (\<lambda>item. if q_id item = i
                       then item\<lparr>q_retry_count := q_retry_count item + 1,
                                q_last_attempt_at := Some now\<rparr>
                       else item)
              (pending_queue db)\<rparr>"

definition retry_request :: "'a pending_item \<Rightarrow> 'a pay_request" where
  "retry_request item =
     \<lparr>pr_amount = q_amount item, pr_phone = q_phone_number item,
      pr_referenceNumber = q_reference_number item,
      pr_message = (case or_null (q_payer_message item) of
                      None \<Rightarrow> ''Church Offering'' | Some m \<Rightarrow> m),
      pr_momoReferenceId = q_momo_reference_id item\<rparr>"

text \<open>What a sweep reads from outside the store: the clock of the selection, and for the
  \<open>k\<close>-th item of the batch the outcome of its resubmission and the clock of its update.\<close>

record 'a sweep_env =
  sweep_clock :: int
  requestToPay_at :: "nat \<Rightarrow> 'a pay_request \<Rightarrow> pay_outcome"
  attempt_clock :: "nat \<Rightarrow> int"

text \<open>The \<^verbatim>\<open>for\<close> loop of \<^verbatim>\<open>processPendingQueue\<close> from the \<open>k\<close>-th item on, with the
  counters \<^verbatim>\<open>succeeded\<close> and \<^verbatim>\<open>failed\<close>.\<close>

fun retry_loop ::
  "'a sweep_env \<Rightarrow> nat \<Rightarrow> 'a pending_item list \<Rightarrow> 'a ledger \<times> nat \<times> nat \<Rightarrow>
     'a ledger \<times> nat \<times> nat" where
  "retry_loop env k [] acc = acc"
| "retry_loop env k (item # items) (db, succeeded, failed) =
     (case requestToPay_at env k (retry_request item) of
        PayAccepted \<Rightarrow>
          retry_loop env (Suc k) items (deleteQueueItem (q_id item) db, succeeded + 1, failed)
      | PayFailed err \<Rightarrow>
          retry_loop env (Suc k) items
            (incrementRetry (q_id item) (attempt_clock env k) db, succeeded, failed + 1))"

definition processPendingQueue :: "'a sweep_env \<Rightarrow> 'a ledger \<Rightarrow> 'a ledger \<times> nat \<times> nat" where
  "processPendingQueue env db =
     (let items = getPendingItems MAX_RETRIES BATCH_SIZE (sweep_clock env) (pending_queue db)
      in if length items = 0 then (db, 0, 0)
         else retry_loop env 0 items (db, 0, 0))"

section \<open>Aggregate consistency\<close>

text \<open>The operations that create and move transactions, with what each reads from
  outside the store, and their effect on the store. A creation whose transaction throws
  is rolled back.\<close>

datatype 'a ledger_op =
  Create "'a offering_data" create_env
  | Transition string string "string option" string

fun apply_op :: "('a::plus) ledger_op \<Rightarrow> 'a ledger \<Rightarrow> 'a ledger" where
  "apply_op (Create data env) db =
     (case createOfferingTxn data env db of Inl e \<Rightarrow> db | Inr (refs, db') \<Rightarrow> db')"
| "apply_op (Transition referenceNumber newStatus financialTxnId now) db =
     snd (updateStatusTxn referenceNumber newStatus financialTxnId now db)"

definition run_ops :: "('a::plus) ledger_op list \<Rightarrow> 'a ledger \<Rightarrow> 'a ledger" where
  "run_ops ops db = foldl (\<lambda>d op. apply_op op d) db ops"

text \<open>The transactions of a daily bucket: those whose \<open>created_at\<close> falls on the date and
  whose category is the bucket's, as \<open>updateStatusTxn\<close> finds the bucket of a transaction.\<close>

definition bucket :: "'a ledger \<Rightarrow> string \<times> string \<Rightarrow> 'a offering list" where
  "bucket db key =
     filter (\<lambda>row. (summaryDate_of (created_at row), category_code row) = key) (offerings db)"

definition count_status :: "string \<Rightarrow> 'a offering list \<Rightarrow> int" where
  "count_status st rows = int (length (filter (\<lambda>row. status row = st) rows))"

text \<open>The sum of a list of amounts as the successive \<^verbatim>\<open>total_amount + amount\<close> compute it:
  from the first amount on, left to right.\<close>

fun amount_sum :: "('a::{zero,plus}) list \<Rightarrow> 'a" where
  "amount_sum [] = 0"
| "amount_sum (x # xs) = foldl (+) x xs"

text \<open>The invariant of the specification for one bucket, and for the store: a bucket without
  an aggregate row has no transaction; the row of a bucket counts its transactions, sums
  their amounts, and counts those \<^verbatim>\<open>SUCCESSFUL\<close> and those \<^verbatim>\<open>FAILED\<close>. References are
  unique, as the schema has them.\<close>

definition bucket_consistent :: "('a::{zero,plus}) ledger \<Rightarrow> string \<times> string \<Rightarrow> bool" where
  "bucket_consistent db key =
     (case daily_summaries db key of
        None \<Rightarrow> bucket db key = []
      | Some agg \<Rightarrow>
          bucket db key \<noteq> []
          \<and> total_count agg = int (length (bucket db key))
          \<and> total_amount agg = amount_sum (map amount (bucket db key))
          \<and> success_count agg = count_status ''SUCCESSFUL'' (bucket db key)
          \<and> failed_count agg = count_status ''FAILED'' (bucket db key))"

definition consistent :: "('a::{zero,plus}) ledger \<Rightarrow> bool" where
  "consistent db \<longleftrightarrow>
     distinct (map reference_number (offerings db)) \<and> (\<forall>key. bucket_consistent db key)"

text \<open>A creation files the transaction under the date of the local clock
  (\<open>getTodayDateString\<close>) and stamps it with the UTC clock of SQLite. The two dates agree
  when the server runs in UTC and midnight does not fall between the two readings.\<close>

definition dates_agree :: "'a ledger_op \<Rightarrow> bool" where
  "dates_agree op =
     (case op of
        Create data env \<Rightarrow> getTodayDateString (today_clock env) = summaryDate_of (db_clock env)
      | Transition referenceNumber newStatus financialTxnId now \<Rightarrow> True)"

section \<open>Worked examples\<close>

text \<open>The catalogue seeded by \<^verbatim>\<open>initializeDatabase\<close> (code and name), and the ledger of
  the scenario of the specification: one tithe of 50.00 created on 2026-02-11.\<close>

definition seed_categories :: "(string \<times> string) list" where
  "seed_categories =
     [(''TITHE'', ''Tithes''), (''OFFR'', ''General Offering''), (''SEED'', ''Seed Offering''),
      (''PLEDG'', ''Pledge Redemption''), (''BUILD'', ''Building Fund''), (''MISN'', ''Missions''),
      (''WELFR'', ''Welfare''), (''YOUTH'', ''Youth Ministry''), (''THANKS'', ''Thanksgiving''),
      (''FIRST'', ''First Fruit'')]"

definition tithe_row :: "real offering" where
  "tithe_row =
     \<lparr>reference_number = ''TITHE-2026-0211-001'', momo_reference_id = ''uuid-0001'',
      financial_txn_id = None, category_code = ''TITHE'', amount = 50, currency = ''GHS'',
      phone_number = ''0241234567'', member_name = None, member_id = None,
      payer_message = None, status = ''PENDING'', created_at = ''2026-02-11 09:30:00'',
      updated_at = ''2026-02-11 09:30:00''\<rparr>"

definition tithe_ledger :: "real ledger" where
  "tithe_ledger =
     \<lparr>offerings = [tithe_row],
      daily_summaries = [(''2026-02-11'', ''TITHE'') \<mapsto>
         \<lparr>total_count = 1, total_amount = 50, success_count = 0, failed_count = 0\<rparr>],
      pending_queue = [], queue_seq = 0, categories = seed_categories\<rparr>"

text \<open>The same ledger once the payment has settled.\<close>

definition paid_row :: "real offering" where
  "paid_row = tithe_row\<lparr>status := ''SUCCESSFUL'', financial_txn_id := Some ''FT1'',
                       updated_at := ''2026-02-11 09:31:00''\<rparr>"

definition paid_ledger :: "real ledger" where
  "paid_ledger =
     \<lparr>offerings = [paid_row],
      daily_summaries = [(''2026-02-11'', ''TITHE'') \<mapsto>
         \<lparr>total_count = 1, total_amount = 50, success_count = 1, failed_count = 0\<rparr>],
      pending_queue = [], queue_seq = 0, categories = seed_categories\<rparr>"

text \<open>Two payment clients: one that cannot be reached, one that reports the settlement.\<close>

definition momo_down :: "string \<Rightarrow> string + momo_status" where
  "momo_down correlationId = Inl ''fetch failed''"

definition momo_settled :: "string \<Rightarrow> string + momo_status" where
  "momo_settled correlationId =
     Inr \<lparr>ms_status = Some ''SUCCESSFUL'', ms_financialTransactionId = Some ''FT1''\<rparr>"

text \<open>Retry entries for the tithe of the scenario: id, creation time, retry count and last
  attempt (times in seconds).\<close>

definition queue_item :: "int \<Rightarrow> int \<Rightarrow> int \<Rightarrow> int option \<Rightarrow> real pending_item" where
  "queue_item i created retries attempted =
     \<lparr>q_id = i, q_reference_number = ''TITHE-2026-0211-001'', q_momo_reference_id = ''uuid-0001'',
      q_amount = 50, q_phone_number = ''0241234567'', q_payer_message = Some ''Tithes Offering'',
      q_retry_count = retries, q_last_attempt_at = attempted, q_created_at = created\<rparr>"

text \<open>A queue with an exhausted entry, one still cooling down at time 1000, a fresh one, and
  one on its last attempt.\<close>

definition small_queue :: "real pending_item list" where
  "small_queue =
     [queue_item 1 100 5 (Some 200), queue_item 2 300 1 (Some 900), queue_item 3 400 0 None,
      queue_item 4 350 4 (Some 800)]"

text \<open>Twelve eligible entries, the later ids created earlier.\<close>

definition crowded_queue :: "real pending_item list" where
  "crowded_queue = map (\<lambda>k. queue_item (int k) (100 - int k) 0 None) [1..<13]"

text \<open>The scenario ledger with the small queue, swept at time 1000 by a client that fails the
  first resubmission and accepts the rest.\<close>

definition queue_ledger :: "real ledger" where
  "queue_ledger = tithe_ledger\<lparr>pending_queue := small_queue, queue_seq := 4\<rparr>"

definition sweep_example :: "real sweep_env" where
  "sweep_example =
     \<lparr>sweep_clock = 1000,
      requestToPay_at = (\<lambda>k request. if k = 0 then PayFailed ''timeout'' else PayAccepted),
      attempt_clock = (\<lambda>k. 1000 + int k)\<rparr>"

text \<open>A tithe of 50.00 created half an hour after local midnight on a server one hour ahead of
  UTC: the local clock reads 2026-02-12, the clock of SQLite 2026-02-11 23:30:00.\<close>

definition tithe_data :: "real offering_data" where
  "tithe_data = \<lparr>d_phone = ''0241234567'', d_amount = 50, d_category = ''TITHE'',
                  d_memberName = None, d_note = None\<rparr>"

definition after_midnight :: "string \<Rightarrow> string \<Rightarrow> create_env" where
  "after_midnight correlationId utc =
     \<lparr>ref_clock = \<lparr>fullYear = 2026, month0 = 1, date = 12\<rparr>, uuid = correlationId,
      today_clock = \<lparr>fullYear = 2026, month0 = 1, date = 12\<rparr>, db_clock = utc\<rparr>"

text \<open>The store of a fresh installation.\<close>

definition new_ledger :: "real ledger" where
  "new_ledger = empty_ledger seed_categories"

text \<open>The creation, followed by the webhook that reports the payment as settled; and the store
  the creation leaves.\<close>

definition midnight_ops :: "real ledger_op list" where
  "midnight_ops =
     [Create tithe_data (after_midnight ''uuid-0001'' ''2026-02-11 23:30:00''),
      Transition ''TITHE-2026-0212-001'' ''SUCCESSFUL'' (Some ''FT1'') ''2026-02-11 23:31:00'']"

definition midnight_row :: "real offering" where
  "midnight_row =
     \<lparr>reference_number = ''TITHE-2026-0212-001'', momo_reference_id = ''uuid-0001'',
      financial_txn_id = None, category_code = ''TITHE'', amount = 50, currency = ''GHS'',
      phone_number = ''0241234567'', member_name = None, member_id = None,
      payer_message = None, status = ''PENDING'', created_at = ''2026-02-11 23:30:00'',
      updated_at = ''2026-02-11 23:30:00''\<rparr>"

definition midnight_ledger :: "real ledger" where
  "midnight_ledger =
     \<lparr>offerings = [midnight_row],
      daily_summaries = [(''2026-02-12'', ''TITHE'') \<mapsto>
         \<lparr>total_count = 1, total_amount = 50, success_count = 0, failed_count = 0\<rparr>],
      pending_queue = [], queue_seq = 0, categories = seed_categories\<rparr>"

text \<open>The request body of that tithe, and two payment clients for the submission: one that
  accepts, one that cannot be reached.\<close>

definition tithe_body :: "real create_body" where
  "tithe_body = \<lparr>b_phone = Some ''0241234567'', b_amount = AmountNum 50,
                  b_category = Some ''TITHE'', b_memberName = None, b_note = None\<rparr>"

definition momo_accepts :: "real pay_request \<Rightarrow> pay_outcome" where
  "momo_accepts request = PayAccepted"

definition momo_rejects :: "real pay_request \<Rightarrow> pay_outcome" where
  "momo_rejects request = PayFailed ''fetch failed''"

section \<open>Properties of the transition engine\<close>

lemma find_SomeD: "find P xs = Some x \<Longrightarrow> P x \<and> x \<in> set xs"
  by (induction xs) (auto split: if_splits)

lemma getOfferingByRef_SomeD:
  "getOfferingByRef db r = Some row \<Longrightarrow> row \<in> set (offerings db) \<and> reference_number row = r"
  unfolding getOfferingByRef_def by (drule find_SomeD) simp

lemma find_map_same_key:
  assumes "\<And>x. P (f x) = P x"
  shows "find P (map f xs) = map_option f (find P xs)"
  using assms by (induction xs) auto

lemma getOfferingByRef_updateOfferingStatus:
  "getOfferingByRef (updateOfferingStatus st fid r now db) r =
     map_option (\<lambda>row. row\<lparr>status := st, financial_txn_id := fid, updated_at := now\<rparr>)
       (getOfferingByRef db r)"
proof -
  let ?f = "\<lambda>row. if reference_number row = r
                   then row\<lparr>status := st, financial_txn_id := fid, updated_at := now\<rparr> else row"
  have "find (\<lambda>row. reference_number row = r) (map ?f (offerings db)) =
          map_option ?f (find (\<lambda>row. reference_number row = r) (offerings db))"
    by (rule find_map_same_key) simp
  moreover have "map_option ?f (find (\<lambda>row. reference_number row = r) (offerings db)) =
     map_option (\<lambda>row. row\<lparr>status := st, financial_txn_id := fid, updated_at := now\<rparr>)
       (find (\<lambda>row. reference_number row = r) (offerings db))"
    by (cases "find (\<lambda>row. reference_number row = r) (offerings db)")
       (auto dest: find_SomeD)
  ultimately show ?thesis
    by (simp add: getOfferingByRef_def updateOfferingStatus_def)
qed

lemma getOfferingByRef_updateDailySummaryCounters [simp]:
  "getOfferingByRef (updateDailySummaryCounters sd fd d c db) r = getOfferingByRef db r"
  by (simp add: getOfferingByRef_def updateDailySummaryCounters_def split: option.splits)

lemma daily_summaries_updateOfferingStatus [simp]:
  "daily_summaries (updateOfferingStatus st fid r now db) = daily_summaries db"
  by (simp add: updateOfferingStatus_def)

lemma updateStatusTxn_same:
  "getOfferingByRef db r = Some row \<Longrightarrow> status row = st \<Longrightarrow>
     updateStatusTxn r st fid now db = (Some \<lparr>res_offering = row, changed = False\<rparr>, db)"
  by (simp add: updateStatusTxn_def)

lemma updateStatusTxn_changes:
  "getOfferingByRef db r = Some row \<Longrightarrow> status row \<noteq> st \<Longrightarrow>
     updateStatusTxn r st fid now db =
       (Some \<lparr>res_offering = row\<lparr>status := st, financial_txn_id := fid\<rparr>, changed = True\<rparr>,
        updateDailySummaryCounters (fst (getStatusDelta (status row) st))
          (snd (getStatusDelta (status row) st)) (summaryDate_of (created_at row))
          (category_code row) (updateOfferingStatus st (or_null fid) r now db))"
  by (simp add: updateStatusTxn_def Let_def split: prod.splits)

lemma getOfferingByRef_after:
  "getOfferingByRef db r = Some row \<Longrightarrow>
     \<exists>row'. getOfferingByRef (snd (updateStatusTxn r st fid now db)) r = Some row'
        \<and> status row' = st \<and> created_at row' = created_at row
        \<and> category_code row' = category_code row"
  by (cases "status row = st")
     (simp_all add: updateStatusTxn_same updateStatusTxn_changes
        getOfferingByRef_updateOfferingStatus)

lemma getStatusDelta_eq:
  "getStatusDelta old new =
     ((if new = ''SUCCESSFUL'' then 1 else 0) - (if old = ''SUCCESSFUL'' then 1 else 0),
      (if new = ''FAILED'' then 1 else 0) - (if old = ''FAILED'' then 1 else 0))"
  by (simp add: getStatusDelta_def)

lemma getStatusDelta_inverse:
  "fst (getStatusDelta A B) + fst (getStatusDelta B A) = 0
   \<and> snd (getStatusDelta A B) + snd (getStatusDelta B A) = 0"
  by (simp add: getStatusDelta_eq)

lemma daily_summaries_after_change:
  assumes "getOfferingByRef db r = Some row" and "status row \<noteq> st"
    and "daily_summaries db (summaryDate_of (created_at row), category_code row) = Some agg"
  shows "daily_summaries (snd (updateStatusTxn r st fid now db)) =
     (daily_summaries db)((summaryDate_of (created_at row), category_code row) \<mapsto>
        agg\<lparr>success_count := success_count agg + fst (getStatusDelta (status row) st),
            failed_count := failed_count agg + snd (getStatusDelta (status row) st)\<rparr>)"
  using assms by (simp add: updateStatusTxn_changes updateDailySummaryCounters_def)

lemma daily_summaries_after_change_None:
  assumes "getOfferingByRef db r = Some row"
    and "daily_summaries db (summaryDate_of (created_at row), category_code row) = None"
  shows "daily_summaries (snd (updateStatusTxn r st fid now db)) = daily_summaries db"
  using assms
  by (cases "status row = st")
     (simp_all add: updateStatusTxn_changes updateStatusTxn_same updateDailySummaryCounters_def)

lemma tithe_lookup:
  "getOfferingByRef tithe_ledger ''TITHE-2026-0211-001'' = Some tithe_row"
  by (simp add: getOfferingByRef_def tithe_ledger_def tithe_row_def)

lemma paid_lookup:
  "getOfferingByRef paid_ledger ''TITHE-2026-0211-001'' = Some paid_row"
  by (simp add: getOfferingByRef_def paid_ledger_def paid_row_def tithe_row_def)

text \<open>
  Claim C2 (transition idempotence). For a transaction whose current status already is the
  requested one, \<open>updateStatusTxn\<close> returns the row with \<open>changed = False\<close> and the whole
  store (transaction rows and every aggregate) is the one it was given. Hence, whatever the
  status of an existing transaction was, a second call with the same status after a first
  one reports \<open>changed = False\<close> and leaves the store as the first call left it.
\<close>

theorem transition_idempotent:
  assumes "getOfferingByRef db r = Some row"
  shows "(status row = st \<longrightarrow>
            updateStatusTxn r st fid now db = (Some \<lparr>res_offering = row, changed = False\<rparr>, db))
       \<and> (\<exists>res. updateStatusTxn r st fid' now' (snd (updateStatusTxn r st fid now db)) =
                 (Some res, snd (updateStatusTxn r st fid now db)) \<and> \<not> changed res)"
proof -
  obtain row' where "getOfferingByRef (snd (updateStatusTxn r st fid now db)) r = Some row'"
    and "status row' = st"
    using getOfferingByRef_after [OF assms] by blast
  then have "updateStatusTxn r st fid' now' (snd (updateStatusTxn r st fid now db)) =
     (Some \<lparr>res_offering = row', changed = False\<rparr>, snd (updateStatusTxn r st fid now db))"
    by (rule updateStatusTxn_same)
  then show ?thesis
    using assms by (auto simp: updateStatusTxn_same)
qed

theorem transition_idempotent_witness:
  "getOfferingByRef tithe_ledger ''TITHE-2026-0211-001'' = Some tithe_row
   \<and> status tithe_row = ''PENDING''
   \<and> updateStatusTxn ''TITHE-2026-0211-001'' ''PENDING'' None ''2026-02-11 09:31:00'' tithe_ledger
       = (Some \<lparr>res_offering = tithe_row, changed = False\<rparr>, tithe_ledger)"
  using transition_idempotent [OF tithe_lookup, of "''PENDING''" None "''2026-02-11 09:31:00''"]
  by (simp add: tithe_lookup) (simp add: tithe_row_def)

text \<open>
  The delta rule on the aggregate row. A transition of an existing transaction from its
  old status to a different new one rewrites the aggregate row stored under (date of
  \<open>created_at\<close>, category), when the store has one: \<open>success_count\<close> loses one if the
  old status is \<^verbatim>\<open>SUCCESSFUL\<close> and gains one if the new status is; \<open>failed_count\<close>
  likewise for \<^verbatim>\<open>FAILED\<close>; every other row is left alone. When the store has no such
  row, no aggregate changes.
\<close>

theorem generic_delta_rule:
  assumes "getOfferingByRef db r = Some row" and "status row \<noteq> newStatus"
  shows "daily_summaries (snd (updateStatusTxn r newStatus fid now db))
           (summaryDate_of (created_at row), category_code row) =
         map_option
           (\<lambda>agg. agg\<lparr>success_count := success_count agg
                           - (if status row = ''SUCCESSFUL'' then 1 else 0)
                           + (if newStatus = ''SUCCESSFUL'' then 1 else 0),
                       failed_count := failed_count agg
                           - (if status row = ''FAILED'' then 1 else 0)
                           + (if newStatus = ''FAILED'' then 1 else 0)\<rparr>)
           (daily_summaries db (summaryDate_of (created_at row), category_code row))
   \<and> (\<forall>key. key \<noteq> (summaryDate_of (created_at row), category_code row) \<longrightarrow>
         daily_summaries (snd (updateStatusTxn r newStatus fid now db)) key =
         daily_summaries db key)
   \<and> (status row = ''SUCCESSFUL'' \<and> newStatus = ''FAILED'' \<longrightarrow>
         daily_summaries (snd (updateStatusTxn r newStatus fid now db))
           (summaryDate_of (created_at row), category_code row) =
         map_option
           (\<lambda>agg. agg\<lparr>success_count := success_count agg - 1,
                       failed_count := failed_count agg + 1\<rparr>)
           (daily_summaries db (summaryDate_of (created_at row), category_code row)))"
proof (cases "daily_summaries db (summaryDate_of (created_at row), category_code row)")
  case None
  then show ?thesis
    using daily_summaries_after_change_None [OF assms(1) None, of newStatus fid now]
    by auto
next
  case (Some agg)
  then show ?thesis
    using daily_summaries_after_change [OF assms Some, of fid now]
    by (auto simp: getStatusDelta_eq)
qed

theorem generic_delta_rule_witness:
  "getOfferingByRef paid_ledger ''TITHE-2026-0211-001'' = Some paid_row
   \<and> status paid_row = ''SUCCESSFUL''
   \<and> daily_summaries paid_ledger (''2026-02-11'', ''TITHE'') =
        Some \<lparr>total_count = 1, total_amount = 50, success_count = 1, failed_count = 0\<rparr>
   \<and> daily_summaries (snd (updateStatusTxn ''TITHE-2026-0211-001'' ''FAILED'' None
        ''2026-02-11 11:00:00'' paid_ledger)) (''2026-02-11'', ''TITHE'') =
        Some \<lparr>total_count = 1, total_amount = 50, success_count = 0, failed_count = 1\<rparr>
   \<and> daily_summaries (snd (updateStatusTxn ''TITHE-2026-0211-001'' ''FAILED'' None
        ''2026-02-11 11:00:00'' paid_ledger)) (''2026-02-12'', ''TITHE'') = None"
proof -
  have st: "status paid_row \<noteq> ''FAILED''" "status paid_row = ''SUCCESSFUL''"
    by (simp_all add: paid_row_def)
  have key: "(summaryDate_of (created_at paid_row), category_code paid_row) =
      (''2026-02-11'', ''TITHE'')"
    by (simp add: paid_row_def tithe_row_def summaryDate_of_def)
  have agg: "daily_summaries paid_ledger (''2026-02-11'', ''TITHE'') =
      Some \<lparr>total_count = 1, total_amount = 50, success_count = 1, failed_count = 0\<rparr>"
    "daily_summaries paid_ledger (''2026-02-12'', ''TITHE'') = None"
    by (simp_all add: paid_ledger_def)
  show ?thesis
    using generic_delta_rule [OF paid_lookup st(1), where fid = None
        and now = "''2026-02-11 11:00:00''"]
    unfolding key
    by (simp add: paid_lookup st agg)
qed

text \<open>
  Claim C10 (round-trip neutrality). For a transaction in status \<open>A\<close> and a status
  \<open>B \<noteq> A\<close>, the transition to \<open>B\<close> followed by the transition back to \<open>A\<close> leaves the
  transaction in status \<open>A\<close> and every aggregate row as it was before the first call; the
  two deltas \<open>getStatusDelta A B\<close> and \<open>getStatusDelta B A\<close> sum to zero in both
  components.
\<close>

theorem round_trip_neutral:
  assumes found: "getOfferingByRef db r = Some row" and "status row = A" and "B \<noteq> A"
  shows "(\<exists>row'. getOfferingByRef
                  (snd (updateStatusTxn r A id2 now2 (snd (updateStatusTxn r B id1 now1 db)))) r
                = Some row' \<and> status row' = A)
       \<and> daily_summaries
            (snd (updateStatusTxn r A id2 now2 (snd (updateStatusTxn r B id1 now1 db))))
          = daily_summaries db
       \<and> fst (getStatusDelta A B) + fst (getStatusDelta B A) = 0
       \<and> snd (getStatusDelta A B) + snd (getStatusDelta B A) = 0"
proof -
  let ?key = "(summaryDate_of (created_at row), category_code row)"
  let ?db1 = "snd (updateStatusTxn r B id1 now1 db)"
  let ?db2 = "snd (updateStatusTxn r A id2 now2 ?db1)"
  obtain row1 where row1: "getOfferingByRef ?db1 r = Some row1" "status row1 = B"
    "created_at row1 = created_at row" "category_code row1 = category_code row"
    using getOfferingByRef_after [OF found] by blast
  obtain row2 where row2: "getOfferingByRef ?db2 r = Some row2" "status row2 = A"
    using getOfferingByRef_after [OF row1(1)] by blast
  have "daily_summaries ?db2 = daily_summaries db"
  proof (cases "daily_summaries db ?key")
    case None
    then have "daily_summaries ?db1 = daily_summaries db"
      using found by (rule daily_summaries_after_change_None [rotated])
    moreover from this None have "daily_summaries ?db2 = daily_summaries ?db1"
      using row1 by (intro daily_summaries_after_change_None [of _ _ row1]) simp_all
    ultimately show ?thesis by simp
  next
    case (Some agg)
    let ?agg1 = "agg\<lparr>success_count := success_count agg + fst (getStatusDelta A B),
                     failed_count := failed_count agg + snd (getStatusDelta A B)\<rparr>"
    have d1: "daily_summaries ?db1 = (daily_summaries db)(?key \<mapsto> ?agg1)"
      using daily_summaries_after_change [OF found _ Some, of B id1 now1] assms by simp
    then have k1: "daily_summaries ?db1
        (summaryDate_of (created_at row1), category_code row1) = Some ?agg1"
      using row1 by simp
    have "status row1 \<noteq> A" using row1 assms by simp
    from daily_summaries_after_change [OF row1(1) this k1, of id2 now2]
    have "daily_summaries ?db2 = (daily_summaries db)(?key \<mapsto> agg)"
      using row1 d1 by (simp add: getStatusDelta_eq)
    then show ?thesis using Some by (simp add: map_upd_triv)
  qed
  then show ?thesis using row2 getStatusDelta_inverse by blast
qed

theorem round_trip_neutral_witness:
  "getOfferingByRef tithe_ledger ''TITHE-2026-0211-001'' = Some tithe_row
   \<and> status tithe_row = ''PENDING'' \<and> ''SUCCESSFUL'' \<noteq> ''PENDING''
   \<and> daily_summaries
        (snd (updateStatusTxn ''TITHE-2026-0211-001'' ''PENDING'' None ''2026-02-11 10:05:00''
           (snd (updateStatusTxn ''TITHE-2026-0211-001'' ''SUCCESSFUL'' (Some ''FT1'')
              ''2026-02-11 10:00:00'' tithe_ledger))))
      = daily_summaries tithe_ledger"
  using round_trip_neutral [OF tithe_lookup, of "''PENDING''" "''SUCCESSFUL''" None
      "''2026-02-11 10:05:00''" "Some ''FT1''" "''2026-02-11 10:00:00''"]
  by (simp add: tithe_lookup) (simp add: tithe_row_def)




section \<open>Properties of the drivers\<close>

text \<open>
  Claim C7 (unknown reference). When no transaction has the reference,
  \<open>updateStatusTxn\<close> returns \<^verbatim>\<open>null\<close> (\<open>None\<close>) and the store it was given; the webhook
  handler, on a well-formed body, answers 404 \<^verbatim>\<open>Offering not found\<close> with the store
  unchanged, an answer different from the 500 of its \<^verbatim>\<open>catch\<close> branch.
\<close>

theorem unknown_reference_not_found:
  assumes "getOfferingByRef db r = None"
  shows "updateStatusTxn r st fid now db = (None, db)
       \<and> (r \<noteq> [] \<and> st \<in> {''SUCCESSFUL'', ''FAILED'', ''PENDING''} \<longrightarrow>
            post_callback_momo
              \<lparr>externalId = Some r, cb_status = Some st, financialTransactionId = fid\<rparr> now db
            = (CbNotFound ''Offering not found'', db))
       \<and> callback_code (CbNotFound ''Offering not found'') = 404
       \<and> callback_code (CbNotFound ''Offering not found'')
           \<noteq> callback_code (CbInternalError ''Internal server error'')"
proof -
  have txn: "updateStatusTxn r st fid now db = (None, db)"
    using assms by (simp add: updateStatusTxn_def)
  then show ?thesis
    by (auto simp: post_callback_momo_def or_null_def)
qed

theorem unknown_reference_not_found_witness:
  "getOfferingByRef tithe_ledger ''OFFR-2026-0211-009'' = None
   \<and> post_callback_momo
        \<lparr>externalId = Some ''OFFR-2026-0211-009'', cb_status = Some ''SUCCESSFUL'',
         financialTransactionId = Some ''FT9''\<rparr> ''2026-02-11 10:00:00'' tithe_ledger
      = (CbNotFound ''Offering not found'', tithe_ledger)"
proof -
  have h: "getOfferingByRef tithe_ledger ''OFFR-2026-0211-009'' = None"
    by (simp add: getOfferingByRef_def tithe_ledger_def tithe_row_def)
  show ?thesis
    using unknown_reference_not_found [OF h, of "''SUCCESSFUL''" "Some ''FT9''"
        "''2026-02-11 10:00:00''"] h
    by simp
qed

text \<open>
  Claim C6 (poll driver). For a status query on an existing transaction: if the local
  status is \<^verbatim>\<open>SUCCESSFUL\<close> or \<^verbatim>\<open>FAILED\<close>, the answer is that status and the store is
  unchanged, whatever the payment client is (the client is a parameter that the answer
  does not mention: it is not called); otherwise, if the client's status query throws, the
  answer is still a 200 carrying the local status together with the error message as
  \<^verbatim>\<open>momoError\<close>, the store unchanged; and if the client returns a status that differs
  from the local one, the store is the one \<open>updateStatusTxn\<close> produces for that status and
  the answer reports it.
\<close>

theorem poll_driver:
  assumes "getOfferingByRef db r = Some row"
  shows "(status row = ''SUCCESSFUL'' \<or> status row = ''FAILED'' \<longrightarrow>
            get_offering_status checkStatus r now db =
              (PollOk (status row) (financial_txn_id row) (''Status: '' @ status row) None, db))
       \<and> (status row \<noteq> ''SUCCESSFUL'' \<and> status row \<noteq> ''FAILED''
            \<and> checkStatus (momo_reference_id row) = Inl err \<longrightarrow>
            get_offering_status checkStatus r now db =
              (PollOk (status row) (financial_txn_id row)
                 ''Unable to reach MoMo API. Current status from database.'' (Some err), db))
       \<and> (status row \<noteq> ''SUCCESSFUL'' \<and> status row \<noteq> ''FAILED''
            \<and> checkStatus (momo_reference_id row) = Inr momoStatus
            \<and> ms_status momoStatus = Some st \<and> st \<noteq> [] \<and> st \<noteq> status row \<longrightarrow>
            snd (get_offering_status checkStatus r now db) =
              snd (updateStatusTxn r st (or_null (ms_financialTransactionId momoStatus)) now db)
            \<and> p_status (fst (get_offering_status checkStatus r now db)) = st)"
  using assms
  by (auto simp: get_offering_status_def or_null_def Let_def)

theorem poll_driver_witness:
  "getOfferingByRef paid_ledger ''TITHE-2026-0211-001'' = Some paid_row
   \<and> status paid_row = ''SUCCESSFUL''
   \<and> get_offering_status momo_down ''TITHE-2026-0211-001'' ''2026-02-11 10:00:00'' paid_ledger
      = (PollOk ''SUCCESSFUL'' (Some ''FT1'') ''Status: SUCCESSFUL'' None, paid_ledger)
   \<and> getOfferingByRef tithe_ledger ''TITHE-2026-0211-001'' = Some tithe_row
   \<and> status tithe_row = ''PENDING''
   \<and> momo_down (momo_reference_id tithe_row) = Inl ''fetch failed''
   \<and> get_offering_status momo_down ''TITHE-2026-0211-001'' ''2026-02-11 10:00:00'' tithe_ledger
      = (PollOk ''PENDING'' None ''Unable to reach MoMo API. Current status from database.''
           (Some ''fetch failed''), tithe_ledger)
   \<and> snd (get_offering_status momo_settled ''TITHE-2026-0211-001'' ''2026-02-11 10:00:00''
        tithe_ledger)
      = snd (updateStatusTxn ''TITHE-2026-0211-001'' ''SUCCESSFUL'' (Some ''FT1'')
          ''2026-02-11 10:00:00'' tithe_ledger)"
  using poll_driver [OF paid_lookup, where checkStatus = momo_down
      and now = "''2026-02-11 10:00:00''"]
    poll_driver [OF tithe_lookup, where checkStatus = momo_down and err = "''fetch failed''"
      and now = "''2026-02-11 10:00:00''"]
    poll_driver [OF tithe_lookup, where checkStatus = momo_settled
      and now = "''2026-02-11 10:00:00''" and st = "''SUCCESSFUL''" and momoStatus =
        "\<lparr>ms_status = Some ''SUCCESSFUL'', ms_financialTransactionId = Some ''FT1''\<rparr>"]
  by (simp add: paid_lookup tithe_lookup momo_down_def momo_settled_def or_null_def)
     (simp add: paid_row_def tithe_row_def)

section \<open>Properties of the retry worker\<close>

lemma sorted_take_le_rest:
  assumes "sorted (map f xs)" and "x \<in> set xs" and "x \<notin> set (take n xs)" and "s \<in> set (take n xs)"
  shows "f s \<le> f x"
proof -
  have "x \<in> set (take n xs) \<union> set (drop n xs)"
    using assms(2) by (metis append_take_drop_id set_append)
  then have x: "x \<in> set (drop n xs)" using assms(3) by simp
  have "sorted (map f (take n xs) @ map f (drop n xs))"
    using assms(1) by (metis append_take_drop_id map_append)
  then show ?thesis
    using x assms(4) by (auto simp: sorted_append)
qed

lemma not_taken_length:
  assumes "x \<in> set xs" and "x \<notin> set (take n xs)"
  shows "length (take n xs) = n"
proof (rule ccontr)
  assume "length (take n xs) \<noteq> n"
  then have "length xs < n" by simp
  then have "take n xs = xs" by simp
  with assms show False by simp
qed

lemma eligible_iff:
  "eligible MAX_RETRIES now item \<longleftrightarrow>
     q_retry_count item < 5
     \<and> (q_last_attempt_at item = None \<or> (\<exists>t. q_last_attempt_at item = Some t \<and> t + 120 < now))"
  by (auto simp: eligible_def MAX_RETRIES_def COOLDOWN_MINUTES_def split: option.splits)

lemma set_getPendingItems_subset:
  "set (getPendingItems m n now queue) \<subseteq> {item \<in> set queue. eligible m now item}"
  unfolding getPendingItems_def
  by (rule subset_trans [OF set_take_subset]) auto

lemma crowded_queue_eq:
  "crowded_queue = map (\<lambda>k. queue_item k (100 - k) 0 None) [1,2,3,4,5,6,7,8,9,10,11,12]"
  by (simp add: crowded_queue_def upt_rec)

lemma small_sel:
 "getPendingItems MAX_RETRIES BATCH_SIZE 1000 small_queue = [queue_item 4 350 4 (Some 800), queue_item 3 400 0 None]"
  by (simp add: getPendingItems_def small_queue_def queue_item_def eligible_def MAX_RETRIES_def
      BATCH_SIZE_def COOLDOWN_MINUTES_def)

text \<open>
  Claim C4 (retry sweep selection). Every entry that \<open>getPendingItems\<close> selects is in the
  queue, has \<open>retry_count < 5\<close>, and was never attempted or was last attempted more than
  120 seconds before the sweep; at most 10 entries are selected, in ascending order of
  \<open>created_at\<close>; an entry of the queue that meets the condition and is not selected is
  left out only because the batch is full of 10 entries created no later than it. So an
  entry with \<open>retry_count \<ge> 5\<close> is never selected, and an entry attempted at \<open>T\<close> is not
  selected at any time up to \<open>T + 120\<close>.
\<close>

theorem retry_sweep_selection:
  "(\<forall>item \<in> set (getPendingItems MAX_RETRIES BATCH_SIZE now queue).
        item \<in> set queue \<and> q_retry_count item < 5
        \<and> (q_last_attempt_at item = None
            \<or> (\<exists>t. q_last_attempt_at item = Some t \<and> t + 120 < now)))
   \<and> length (getPendingItems MAX_RETRIES BATCH_SIZE now queue) \<le> 10
   \<and> sorted (map q_created_at (getPendingItems MAX_RETRIES BATCH_SIZE now queue))
   \<and> (\<forall>item \<in> set queue.
        q_retry_count item < 5
        \<and> (q_last_attempt_at item = None
            \<or> (\<exists>t. q_last_attempt_at item = Some t \<and> t + 120 < now))
        \<and> item \<notin> set (getPendingItems MAX_RETRIES BATCH_SIZE now queue) \<longrightarrow>
        length (getPendingItems MAX_RETRIES BATCH_SIZE now queue) = 10
        \<and> (\<forall>s \<in> set (getPendingItems MAX_RETRIES BATCH_SIZE now queue).
              q_created_at s \<le> q_created_at item))
   \<and> (\<forall>item. 5 \<le> q_retry_count item \<longrightarrow>
         item \<notin> set (getPendingItems MAX_RETRIES BATCH_SIZE now queue))
   \<and> (\<forall>item T. q_last_attempt_at item = Some T \<and> now \<le> T + 120 \<longrightarrow>
         item \<notin> set (getPendingItems MAX_RETRIES BATCH_SIZE now queue))"
proof -
  let ?el = "sort_key q_created_at (filter (eligible MAX_RETRIES now) queue)"
  let ?sel = "getPendingItems MAX_RETRIES BATCH_SIZE now queue"
  have sel: "?sel = take 10 ?el"
    by (simp add: getPendingItems_def BATCH_SIZE_def)
  have sub: "\<And>item. item \<in> set ?sel \<Longrightarrow> item \<in> set queue \<and> eligible MAX_RETRIES now item"
    using set_getPendingItems_subset [of MAX_RETRIES BATCH_SIZE now queue] by auto
  have p1: "\<forall>item \<in> set ?sel. item \<in> set queue \<and> q_retry_count item < 5
        \<and> (q_last_attempt_at item = None
            \<or> (\<exists>t. q_last_attempt_at item = Some t \<and> t + 120 < now))"
    using sub eligible_iff by blast
  have p2: "length ?sel \<le> 10"
    by (simp add: sel)
  have srt: "sorted (map q_created_at ?el)"
    by (rule sorted_sort_key)
  have p3: "sorted (map q_created_at ?sel)"
    unfolding sel take_map [symmetric] using srt by (rule sorted_wrt_take)
  have p4: "\<forall>item \<in> set queue.
        q_retry_count item < 5
        \<and> (q_last_attempt_at item = None
            \<or> (\<exists>t. q_last_attempt_at item = Some t \<and> t + 120 < now))
        \<and> item \<notin> set ?sel \<longrightarrow>
        length ?sel = 10 \<and> (\<forall>s \<in> set ?sel. q_created_at s \<le> q_created_at item)"
  proof (intro ballI impI)
    fix item
    assume inq: "item \<in> set queue"
      and h: "q_retry_count item < 5
        \<and> (q_last_attempt_at item = None
            \<or> (\<exists>t. q_last_attempt_at item = Some t \<and> t + 120 < now))
        \<and> item \<notin> set ?sel"
    then have "eligible MAX_RETRIES now item" using eligible_iff by blast
    with inq have mem: "item \<in> set ?el" by simp
    from h have out: "item \<notin> set (take 10 ?el)" by (simp add: sel)
    have "length (take 10 ?el) = 10"
      using mem out by (rule not_taken_length)
    moreover have "\<forall>s \<in> set (take 10 ?el). q_created_at s \<le> q_created_at item"
      using sorted_take_le_rest [OF srt mem out] by blast
    ultimately show "length ?sel = 10 \<and> (\<forall>s \<in> set ?sel. q_created_at s \<le> q_created_at item)"
      by (simp add: sel)
  qed
  have p5: "\<forall>item. 5 \<le> q_retry_count item \<longrightarrow> item \<notin> set ?sel"
    using p1 by fastforce
  have p6: "\<forall>item T. q_last_attempt_at item = Some T \<and> now \<le> T + 120 \<longrightarrow> item \<notin> set ?sel"
    using p1 by fastforce
  show ?thesis
    using p1 p2 p3 p4 p5 p6 by blast
qed

theorem retry_sweep_selection_witness:
  "getPendingItems MAX_RETRIES BATCH_SIZE 1000 small_queue =
     [queue_item 4 350 4 (Some 800), queue_item 3 400 0 None]
   \<and> queue_item 1 100 5 (Some 200) \<notin> set (getPendingItems MAX_RETRIES BATCH_SIZE 1000 small_queue)
   \<and> queue_item 2 300 1 (Some 900) \<notin> set (getPendingItems MAX_RETRIES BATCH_SIZE 1000 small_queue)
   \<and> queue_item 1 99 0 None \<in> set crowded_queue
   \<and> queue_item 1 99 0 None \<notin> set (getPendingItems MAX_RETRIES BATCH_SIZE 1000 crowded_queue)
   \<and> length (getPendingItems MAX_RETRIES BATCH_SIZE 1000 crowded_queue) = 10"
proof -
  have mem: "queue_item 1 99 0 None \<in> set crowded_queue"
    by (simp add: crowded_queue_eq)
  have out: "queue_item 1 99 0 None \<notin> set (getPendingItems MAX_RETRIES BATCH_SIZE 1000 crowded_queue)"
    by (simp add: getPendingItems_def crowded_queue_eq queue_item_def eligible_def
        MAX_RETRIES_def BATCH_SIZE_def COOLDOWN_MINUTES_def)
  have el: "q_retry_count (queue_item 1 99 0 None) < 5
      \<and> q_last_attempt_at (queue_item 1 99 0 None) = None"
    by (simp add: queue_item_def)
  show ?thesis
    using retry_sweep_selection [of 1000 small_queue]
      retry_sweep_selection [of 1000 crowded_queue] mem out el small_sel
    by (auto simp: queue_item_def)
qed

lemma retry_loop_ledger:
  "offerings (fst (retry_loop env k items (db, s, f))) = offerings db
   \<and> daily_summaries (fst (retry_loop env k items (db, s, f))) = daily_summaries db
   \<and> categories (fst (retry_loop env k items (db, s, f))) = categories db"
  by (induction items arbitrary: k db s f)
     (auto simp: deleteQueueItem_def incrementRetry_def split: pay_outcome.splits)

lemma retry_loop_counters:
  "fst (snd (retry_loop env k items (db, s, f))) + snd (snd (retry_loop env k items (db, s, f)))
     = s + f + length items"
  by (induction items arbitrary: k db s f) (auto split: pay_outcome.splits)

lemma filter_id_deleteQueueItem:
  "filter (\<lambda>e. q_id e = j) (pending_queue (deleteQueueItem i db)) =
     (if i = j then [] else filter (\<lambda>e. q_id e = j) (pending_queue db))"
  by (auto simp: deleteQueueItem_def intro: filter_cong)

lemma filter_id_map_bump:
  "filter (\<lambda>e. q_id e = j)
     (map (\<lambda>item. if q_id item = i
                   then item\<lparr>q_retry_count := q_retry_count item + 1,
                            q_last_attempt_at := Some t\<rparr>
                   else item) xs) =
     (if i = j
      then map (\<lambda>e. e\<lparr>q_retry_count := q_retry_count e + 1, q_last_attempt_at := Some t\<rparr>)
             (filter (\<lambda>e. q_id e = j) xs)
      else filter (\<lambda>e. q_id e = j) xs)"
  by (induction xs) auto

lemma filter_id_incrementRetry:
  "filter (\<lambda>e. q_id e = j) (pending_queue (incrementRetry i t db)) =
     (if i = j
      then map (\<lambda>e. e\<lparr>q_retry_count := q_retry_count e + 1, q_last_attempt_at := Some t\<rparr>)
             (filter (\<lambda>e. q_id e = j) (pending_queue db))
      else filter (\<lambda>e. q_id e = j) (pending_queue db))"
proof -
  have "pending_queue (incrementRetry i t db) =
      map (\<lambda>item. if q_id item = i
                    then item\<lparr>q_retry_count := q_retry_count item + 1,
                             q_last_attempt_at := Some t\<rparr>
                    else item) (pending_queue db)"
    by (simp add: incrementRetry_def)
  then show ?thesis
    by (simp only: filter_id_map_bump)
qed

lemma retry_loop_other_ids:
  "j \<notin> q_id ` set items \<Longrightarrow>
     filter (\<lambda>e. q_id e = j) (pending_queue (fst (retry_loop env k items (db, s, f)))) =
     filter (\<lambda>e. q_id e = j) (pending_queue db)"
  by (induction items arbitrary: k db s f)
     (auto simp: filter_id_deleteQueueItem filter_id_incrementRetry split: pay_outcome.splits)

lemma retry_loop_nth:
  "distinct (map q_id items) \<Longrightarrow> i < length items \<Longrightarrow>
     filter (\<lambda>e. q_id e = q_id (items ! i))
       (pending_queue (fst (retry_loop env k items (db, s, f)))) =
     (case requestToPay_at env (k + i) (retry_request (items ! i)) of
        PayAccepted \<Rightarrow> []
      | PayFailed err \<Rightarrow>
          map (\<lambda>e. e\<lparr>q_retry_count := q_retry_count e + 1,
                      q_last_attempt_at := Some (attempt_clock env (k + i))\<rparr>)
            (filter (\<lambda>e. q_id e = q_id (items ! i)) (pending_queue db)))"
proof (induction items arbitrary: k i db s f)
  case Nil
  then show ?case by simp
next
  case (Cons item items)
  show ?case
  proof (cases i)
    case 0
    have fresh: "q_id item \<notin> q_id ` set items"
      using Cons.prems by simp
    show ?thesis
      using 0 retry_loop_other_ids [OF fresh]
      by (simp add: filter_id_deleteQueueItem filter_id_incrementRetry
          split: pay_outcome.splits)
  next
    case (Suc i')
    then have i': "i' < length items" and d: "distinct (map q_id items)"
      and ne: "q_id item \<noteq> q_id (items ! i')"
      using Cons.prems by auto
    show ?thesis
      using Suc Cons.IH [OF d i'] ne
      by (simp add: filter_id_deleteQueueItem filter_id_incrementRetry
          split: pay_outcome.splits)
  qed
qed

lemma distinct_filter_id:
  "distinct (map q_id queue) \<Longrightarrow> item \<in> set queue \<Longrightarrow>
     filter (\<lambda>e. q_id e = q_id item) queue = [item]"
  by (induction queue) (auto simp: filter_empty_conv image_iff)

lemma distinct_map_insort_key:
  "distinct (map g (insort_key f x xs)) \<longleftrightarrow> g x \<notin> g ` set xs \<and> distinct (map g xs)"
  by (induction xs) (auto simp: set_insort_key)

lemma distinct_map_sort_key:
  "distinct (map g (sort_key f xs)) \<longleftrightarrow> distinct (map g xs)"
  by (induction xs) (auto simp: distinct_map_insort_key)

lemma distinct_getPendingItems:
  "distinct (map q_id queue) \<Longrightarrow> distinct (map q_id (getPendingItems m n now queue))"
  unfolding getPendingItems_def take_map [symmetric]
  by (rule distinct_take) (simp add: distinct_map_sort_key distinct_map_filter)

lemma processPendingQueue_eq:
  "processPendingQueue env db =
     retry_loop env 0
       (getPendingItems MAX_RETRIES BATCH_SIZE (sweep_clock env) (pending_queue db)) (db, 0, 0)"
  by (simp add: processPendingQueue_def Let_def)

text \<open>
  Claim C5 (retry sweep outcomes). In a queue whose ids are distinct (the primary key), a
  sweep leaves the transactions and the aggregates untouched. For the \<open>k\<close>-th selected
  entry: if the client accepts the resubmission no entry with its id remains in the
  queue; if the resubmission fails the entry remains, with \<open>retry_count\<close> one higher and
  \<open>last_attempt_at\<close> the time of the attempt. Every selected entry is processed, whatever
  happened to the ones before it (the counters \<^verbatim>\<open>succeeded\<close> and \<^verbatim>\<open>failed\<close> add up to
  the size of the batch), and the entries that were not selected stay as they are.
\<close>

theorem retry_sweep_outcomes:
  assumes ids: "distinct (map q_id (pending_queue db))"
  shows "let items = getPendingItems MAX_RETRIES BATCH_SIZE (sweep_clock env) (pending_queue db);
             res = processPendingQueue env db
         in offerings (fst res) = offerings db
          \<and> daily_summaries (fst res) = daily_summaries db
          \<and> (\<forall>k < length items.
                (requestToPay_at env k (retry_request (items ! k)) = PayAccepted \<longrightarrow>
                   (\<forall>e \<in> set (pending_queue (fst res)). q_id e \<noteq> q_id (items ! k)))
              \<and> (requestToPay_at env k (retry_request (items ! k)) \<noteq> PayAccepted \<longrightarrow>
                   filter (\<lambda>e. q_id e = q_id (items ! k)) (pending_queue (fst res)) =
                     [(items ! k)\<lparr>q_retry_count := q_retry_count (items ! k) + 1,
                                 q_last_attempt_at := Some (attempt_clock env k)\<rparr>]))
          \<and> fst (snd res) + snd (snd res) = length items
          \<and> (\<forall>e \<in> set (pending_queue db). e \<notin> set items \<longrightarrow> e \<in> set (pending_queue (fst res)))"
proof -
  define items where "items = getPendingItems MAX_RETRIES BATCH_SIZE (sweep_clock env) (pending_queue db)"
  define res where "res = processPendingQueue env db"
  have res: "res = retry_loop env 0 items (db, 0, 0)"
    by (simp add: res_def items_def processPendingQueue_eq)
  have sub: "set items \<subseteq> set (pending_queue db)"
    using set_getPendingItems_subset [of MAX_RETRIES BATCH_SIZE "sweep_clock env" "pending_queue db"]
    by (auto simp: items_def)
  have dist: "distinct (map q_id items)"
    unfolding items_def using ids by (rule distinct_getPendingItems)
  have a: "offerings (fst res) = offerings db \<and> daily_summaries (fst res) = daily_summaries db"
    by (simp add: res retry_loop_ledger)
  have c: "fst (snd res) + snd (snd res) = length items"
    using retry_loop_counters [of env 0 items db 0 0] by (simp add: res)
  have b: "\<forall>k < length items.
      (requestToPay_at env k (retry_request (items ! k)) = PayAccepted \<longrightarrow>
         (\<forall>e \<in> set (pending_queue (fst res)). q_id e \<noteq> q_id (items ! k)))
    \<and> (requestToPay_at env k (retry_request (items ! k)) \<noteq> PayAccepted \<longrightarrow>
         filter (\<lambda>e. q_id e = q_id (items ! k)) (pending_queue (fst res)) =
           [(items ! k)\<lparr>q_retry_count := q_retry_count (items ! k) + 1,
                       q_last_attempt_at := Some (attempt_clock env k)\<rparr>])"
  proof (intro allI impI)
    fix k assume k: "k < length items"
    then have "items ! k \<in> set (pending_queue db)" using sub by auto
    then have one: "filter (\<lambda>e. q_id e = q_id (items ! k)) (pending_queue db) = [items ! k]"
      using ids by (intro distinct_filter_id)
    have nth: "filter (\<lambda>e. q_id e = q_id (items ! k)) (pending_queue (fst res)) =
       (case requestToPay_at env k (retry_request (items ! k)) of
          PayAccepted \<Rightarrow> []
        | PayFailed err \<Rightarrow>
            [(items ! k)\<lparr>q_retry_count := q_retry_count (items ! k) + 1,
                        q_last_attempt_at := Some (attempt_clock env k)\<rparr>])"
      using retry_loop_nth [OF dist k, of env 0 db 0 0]
      by (simp add: res one split: pay_outcome.splits)
    show "(requestToPay_at env k (retry_request (items ! k)) = PayAccepted \<longrightarrow>
         (\<forall>e \<in> set (pending_queue (fst res)). q_id e \<noteq> q_id (items ! k)))
      \<and> (requestToPay_at env k (retry_request (items ! k)) \<noteq> PayAccepted \<longrightarrow>
         filter (\<lambda>e. q_id e = q_id (items ! k)) (pending_queue (fst res)) =
           [(items ! k)\<lparr>q_retry_count := q_retry_count (items ! k) + 1,
                       q_last_attempt_at := Some (attempt_clock env k)\<rparr>])"
      using nth
      by (cases "requestToPay_at env k (retry_request (items ! k))")
         (auto simp: filter_empty_conv)
  qed
  have d: "\<forall>e \<in> set (pending_queue db). e \<notin> set items \<longrightarrow> e \<in> set (pending_queue (fst res))"
  proof (intro ballI impI)
    fix e assume e: "e \<in> set (pending_queue db)" and out: "e \<notin> set items"
    have one: "filter (\<lambda>x. q_id x = q_id e) (pending_queue db) = [e]"
      using ids e by (intro distinct_filter_id)
    have "q_id e \<notin> q_id ` set items"
    proof
      assume "q_id e \<in> q_id ` set items"
      then obtain x where x: "x \<in> set items" "q_id x = q_id e" by auto
      then have "x \<in> set (filter (\<lambda>x. q_id x = q_id e) (pending_queue db))"
        using sub by auto
      then have "x = e" by (simp add: one)
      with x out show False by simp
    qed
    then have "filter (\<lambda>x. q_id x = q_id e) (pending_queue (fst res)) = [e]"
      using retry_loop_other_ids [of "q_id e" items env 0 db 0 0] by (simp add: res one)
    then have "e \<in> set (filter (\<lambda>x. q_id x = q_id e) (pending_queue (fst res)))"
      by simp
    then show "e \<in> set (pending_queue (fst res))" by simp
  qed
  show ?thesis
    using a b c d unfolding Let_def items_def [symmetric] res_def [symmetric] by blast
qed

theorem retry_sweep_outcomes_witness:
  "distinct (map q_id (pending_queue queue_ledger))
   \<and> getPendingItems MAX_RETRIES BATCH_SIZE (sweep_clock sweep_example)
        (pending_queue queue_ledger) = [queue_item 4 350 4 (Some 800), queue_item 3 400 0 None]
   \<and> pending_queue (fst (processPendingQueue sweep_example queue_ledger)) =
        [queue_item 1 100 5 (Some 200), queue_item 2 300 1 (Some 900),
         queue_item 4 350 5 (Some 1000)]
   \<and> offerings (fst (processPendingQueue sweep_example queue_ledger)) = [tithe_row]
   \<and> snd (processPendingQueue sweep_example queue_ledger) = (1, 1)"
proof -
  have ids: "distinct (map q_id (pending_queue queue_ledger))"
    by (simp add: queue_ledger_def small_queue_def queue_item_def)
  have sel: "getPendingItems MAX_RETRIES BATCH_SIZE (sweep_clock sweep_example)
        (pending_queue queue_ledger) = [queue_item 4 350 4 (Some 800), queue_item 3 400 0 None]"
    by (simp add: getPendingItems_def queue_ledger_def small_queue_def queue_item_def
        eligible_def MAX_RETRIES_def BATCH_SIZE_def COOLDOWN_MINUTES_def sweep_example_def)
  have run: "processPendingQueue sweep_example queue_ledger =
     (queue_ledger\<lparr>pending_queue := [queue_item 1 100 5 (Some 200),
          queue_item 2 300 1 (Some 900), queue_item 4 350 5 (Some 1000)]\<rparr>, 1, 1)"
    unfolding processPendingQueue_eq sel
    by (simp add: sweep_example_def deleteQueueItem_def incrementRetry_def queue_ledger_def
        small_queue_def queue_item_def)
  show ?thesis
    using retry_sweep_outcomes [OF ids, of sweep_example] ids sel run
    by (simp add: queue_ledger_def tithe_ledger_def)
qed

section \<open>Aggregate consistency\<close>

lemma amount_sum_snoc:
  "amount_sum (xs @ [x]) = (if xs = [] then x else amount_sum xs + x)"
  by (cases xs) simp_all

lemma map_update_other_refs:
  "r \<notin> reference_number ` set xs \<Longrightarrow>
     map (\<lambda>row. if reference_number row = r then f row else row) xs = xs"
  by (induction xs) auto

lemma count_status_Cons:
  "count_status st (x # xs) = (if status x = st then 1 else 0) + count_status st xs"
  by (simp add: count_status_def)

lemma count_status_Nil: "count_status st [] = 0"
  by (simp add: count_status_def)

lemma count_status_snoc:
  "count_status st (xs @ [x]) = count_status st xs + (if status x = st then 1 else 0)"
  by (simp add: count_status_def)

lemma count_after_update:
  assumes "distinct (map reference_number xs)" and "row \<in> set xs"
    and "reference_number row = r"
  shows "count_status st
           (map (\<lambda>x. if reference_number x = r
                      then x\<lparr>status := new, financial_txn_id := fid, updated_at := now\<rparr>
                      else x) xs) =
         count_status st xs - (if status row = st then 1 else 0) + (if new = st then 1 else 0)"
  using assms
proof (induction xs)
  case Nil
  then show ?case by simp
next
  case (Cons x xs)
  show ?case
  proof (cases "x = row")
    case True
    then have "r \<notin> reference_number ` set xs"
      using Cons.prems by auto
    then have "map (\<lambda>x. if reference_number x = r
                      then x\<lparr>status := new, financial_txn_id := fid, updated_at := now\<rparr>
                      else x) xs = xs"
      by (rule map_update_other_refs)
    then show ?thesis
      using True Cons.prems by (simp add: count_status_Cons)
  next
    case False
    then have "row \<in> set xs" and "reference_number x \<noteq> r" and "distinct (map reference_number xs)"
      using Cons.prems by auto
    then show ?thesis
      using Cons.IH Cons.prems by (simp add: count_status_Cons)
  qed
qed

lemma bucket_updateOfferingStatus:
  "bucket (updateOfferingStatus new fid r now db) key =
     map (\<lambda>x. if reference_number x = r
                then x\<lparr>status := new, financial_txn_id := fid, updated_at := now\<rparr>
                else x) (bucket db key)"
  by (simp add: bucket_def updateOfferingStatus_def filter_map comp_def if_distrib
      cong: if_cong)

lemma bucket_updateDailySummaryCounters [simp]:
  "bucket (updateDailySummaryCounters sd fd d c db) key = bucket db key"
  by (simp add: bucket_def updateDailySummaryCounters_def split: option.splits)

lemma refs_updateOfferingStatus:
  "map reference_number (offerings (updateOfferingStatus new fid r now db)) =
     map reference_number (offerings db)"
  by (simp add: updateOfferingStatus_def comp_def if_distrib cong: if_cong)

lemma offerings_updateDailySummaryCounters [simp]:
  "offerings (updateDailySummaryCounters sd fd d c db) = offerings db"
  by (simp add: updateDailySummaryCounters_def split: option.splits)

lemma amount_comp_update:
  "amount \<circ> (\<lambda>x. if reference_number x = r
                then x\<lparr>status := new, financial_txn_id := fid, updated_at := now\<rparr>
                else x) = amount"
  by (rule ext) simp

lemma same_reference_same_row:
  assumes "distinct (map reference_number xs)" and "x \<in> set xs" and "y \<in> set xs"
    and "reference_number x = reference_number y"
  shows "x = y"
  using assms by (auto simp: distinct_map dest: inj_onD)

lemma consistent_updateStatusTxn:
  assumes inv: "consistent db"
  shows "consistent (snd (updateStatusTxn r st fid now db))"
proof (cases "getOfferingByRef db r")
  case None
  then show ?thesis using inv by (simp add: updateStatusTxn_def)
next
  case (Some row)
  show ?thesis
  proof (cases "status row = st")
    case True
    with Some inv show ?thesis by (simp add: updateStatusTxn_same)
  next
    case False
    let ?key0 = "(summaryDate_of (created_at row), category_code row)"
    let ?upd = "\<lambda>x. if reference_number x = r
                then x\<lparr>status := st, financial_txn_id := or_null fid, updated_at := now\<rparr>
                else x"
    let ?sd = "fst (getStatusDelta (status row) st)"
    let ?fd = "snd (getStatusDelta (status row) st)"
    let ?db1 = "updateOfferingStatus st (or_null fid) r now db"
    let ?db2 = "updateDailySummaryCounters ?sd ?fd (summaryDate_of (created_at row))
                  (category_code row) ?db1"
    have db2: "snd (updateStatusTxn r st fid now db) = ?db2"
      using Some False by (simp add: updateStatusTxn_changes)
    have row: "row \<in> set (offerings db)" "reference_number row = r"
      using getOfferingByRef_SomeD [OF Some] by simp_all
    have dist: "distinct (map reference_number (offerings db))"
      and buckets: "\<And>key. bucket_consistent db key"
      using inv by (auto simp: consistent_def)
    have in0: "row \<in> set (bucket db ?key0)"
      using row by (simp add: bucket_def)
    then obtain agg where agg: "daily_summaries db ?key0 = Some agg"
      using buckets [of ?key0] by (cases "daily_summaries db ?key0")
        (auto simp: bucket_consistent_def)
    have agg_ok: "bucket db ?key0 \<noteq> []"
      "total_count agg = int (length (bucket db ?key0))"
      "total_amount agg = amount_sum (map amount (bucket db ?key0))"
      "success_count agg = count_status ''SUCCESSFUL'' (bucket db ?key0)"
      "failed_count agg = count_status ''FAILED'' (bucket db ?key0)"
      using buckets [of ?key0] agg by (simp_all add: bucket_consistent_def)
    have ds2: "daily_summaries ?db2 = (daily_summaries db)(?key0 \<mapsto>
        agg\<lparr>success_count := success_count agg + ?sd, failed_count := failed_count agg + ?fd\<rparr>)"
      using agg by (simp add: updateDailySummaryCounters_def updateOfferingStatus_def)
    have b2: "\<And>key. bucket ?db2 key = map ?upd (bucket db key)"
      by (simp add: bucket_updateOfferingStatus)
    have d0: "distinct (map reference_number (bucket db ?key0))"
      unfolding bucket_def using dist by (rule distinct_map_filter)
    have "distinct (map reference_number (offerings ?db2))"
      using dist by (simp add: refs_updateOfferingStatus)
    moreover have "bucket_consistent ?db2 key" for key
    proof (cases "key = ?key0")
      case True
      have "count_status ''SUCCESSFUL'' (map ?upd (bucket db ?key0)) = success_count agg + ?sd"
        using count_after_update [OF d0 in0 row(2), where st = "''SUCCESSFUL''" and new = st
            and fid = "or_null fid" and now = now]
        by (simp add: agg_ok getStatusDelta_eq)
      moreover
      have "count_status ''FAILED'' (map ?upd (bucket db ?key0)) = failed_count agg + ?fd"
        using count_after_update [OF d0 in0 row(2), where st = "''FAILED''" and new = st
            and fid = "or_null fid" and now = now]
        by (simp add: agg_ok getStatusDelta_eq)
      ultimately show ?thesis
        unfolding True bucket_consistent_def ds2 b2
        using agg_ok by (simp add: amount_comp_update)
    next
      case False
      have "r \<notin> reference_number ` set (bucket db key)"
      proof
        assume "r \<in> reference_number ` set (bucket db key)"
        then obtain x where x: "x \<in> set (bucket db key)" "reference_number x = r" by auto
        then have "x \<in> set (offerings db)" by (simp add: bucket_def)
        then have "x = row"
          using dist row x(2) by (intro same_reference_same_row [of "offerings db"]) simp_all
        with x(1) have "key = ?key0" by (simp add: bucket_def)
        with False show False by simp
      qed
      then have "map ?upd (bucket db key) = bucket db key"
        by (rule map_update_other_refs)
      then have bk: "bucket ?db2 key = bucket db key"
        by (simp only: b2)
      have dk: "daily_summaries ?db2 key = daily_summaries db key"
        using False by (simp add: ds2)
      show ?thesis
        using buckets [of key] unfolding bucket_consistent_def bk dk .
    qed
    ultimately show ?thesis
      unfolding db2 consistent_def by blast
  qed
qed

lemma createOfferingTxn_InrD:
  assumes "createOfferingTxn data env db = Inr (refs, db')"
  shows "refs = (generateReference (ref_clock env) db (d_category data), uuid env)"
    and "fst refs \<notin> set (map reference_number (offerings db))"
    and "snd refs \<notin> set (map momo_reference_id (offerings db))"
    and "d_category data \<in> set (map fst (categories db))"
    and "offerings db' = offerings db @
          [\<lparr>reference_number = fst refs, momo_reference_id = snd refs,
            financial_txn_id = None, category_code = d_category data, amount = d_amount data,
            currency = ''GHS'', phone_number = d_phone data,
            member_name = or_null (d_memberName data), member_id = None,
            payer_message = or_null (d_note data), status = ''PENDING'',
            created_at = db_clock env, updated_at = db_clock env\<rparr>]"
    and "daily_summaries db' =
          (daily_summaries db)((getTodayDateString (today_clock env), d_category data) \<mapsto>
            (case daily_summaries db (getTodayDateString (today_clock env), d_category data) of
               None \<Rightarrow> \<lparr>total_count = 1, total_amount = d_amount data, success_count = 0,
                        failed_count = 0\<rparr>
             | Some row \<Rightarrow> row\<lparr>total_count := total_count row + 1,
                                total_amount := total_amount row + d_amount data\<rparr>))"
    and "pending_queue db' = pending_queue db" and "queue_seq db' = queue_seq db"
    and "categories db' = categories db"
  using assms
  by (auto simp: createOfferingTxn_def insertOffering_def upsertDailySummary_def Let_def
      split: if_splits)

lemma consistent_createOfferingTxn:
  assumes inv: "consistent db"
    and run: "createOfferingTxn data env db = Inr (refs, db')"
    and dates: "getTodayDateString (today_clock env) = summaryDate_of (db_clock env)"
  shows "consistent db'"
proof -
  let ?new = "\<lparr>reference_number = fst refs, momo_reference_id = snd refs,
            financial_txn_id = None, category_code = d_category data, amount = d_amount data,
            currency = ''GHS'', phone_number = d_phone data,
            member_name = or_null (d_memberName data), member_id = None,
            payer_message = or_null (d_note data), status = ''PENDING'',
            created_at = db_clock env, updated_at = db_clock env\<rparr>"
  let ?key0 = "(summaryDate_of (db_clock env), d_category data)"
  note facts = createOfferingTxn_InrD [OF run]
  have dist: "distinct (map reference_number (offerings db))"
    and buckets: "\<And>key. bucket_consistent db key"
    using inv by (auto simp: consistent_def)
  have offs: "offerings db' = offerings db @ [?new]"
    by (rule facts(5))
  have ds: "daily_summaries db' = (daily_summaries db)(?key0 \<mapsto>
            (case daily_summaries db ?key0 of
               None \<Rightarrow> \<lparr>total_count = 1, total_amount = d_amount data, success_count = 0,
                        failed_count = 0\<rparr>
             | Some row \<Rightarrow> row\<lparr>total_count := total_count row + 1,
                                total_amount := total_amount row + d_amount data\<rparr>))"
    using facts(6) by (simp add: dates)
  have b0: "bucket db' ?key0 = bucket db ?key0 @ [?new]"
    by (simp add: bucket_def offs)
  have bk: "bucket db' key = bucket db key" if "key \<noteq> ?key0" for key
    using that by (auto simp: bucket_def offs)
  have "distinct (map reference_number (offerings db'))"
    using dist facts(2) by (simp add: offs)
  moreover have "bucket_consistent db' key" for key
  proof (cases "key = ?key0")
    case True
    show ?thesis
    proof (cases "daily_summaries db ?key0")
      case None
      then have "bucket db ?key0 = []"
        using buckets [of ?key0] by (simp add: bucket_consistent_def)
      then show ?thesis
        unfolding True bucket_consistent_def
        by (simp add: ds None b0 count_status_Cons count_status_Nil)
    next
      case (Some agg)
      then have "bucket db ?key0 \<noteq> []"
        "total_count agg = int (length (bucket db ?key0))"
        "total_amount agg = amount_sum (map amount (bucket db ?key0))"
        "success_count agg = count_status ''SUCCESSFUL'' (bucket db ?key0)"
        "failed_count agg = count_status ''FAILED'' (bucket db ?key0)"
        using buckets [of ?key0] by (simp_all add: bucket_consistent_def)
      then show ?thesis
        unfolding True bucket_consistent_def
        by (simp add: ds Some b0 count_status_snoc amount_sum_snoc)
    qed
  next
    case False
    have dk: "daily_summaries db' key = daily_summaries db key"
      using False by (simp add: ds)
    show ?thesis
      using buckets [of key] unfolding bucket_consistent_def bk [OF False] dk .
  qed
  ultimately show ?thesis
    unfolding consistent_def by blast
qed

lemma consistent_empty_ledger: "consistent (empty_ledger cats)"
  by (simp add: consistent_def bucket_consistent_def bucket_def empty_ledger_def)

lemma consistent_apply_op:
  assumes "consistent db" and "dates_agree op"
  shows "consistent (apply_op op db)"
proof (cases op)
  case (Create data env)
  show ?thesis
  proof (cases "createOfferingTxn data env db")
    case (Inl e)
    then show ?thesis using assms(1) Create by simp
  next
    case (Inr res)
    obtain refs db' where res: "res = (refs, db')" by (cases res)
    have "consistent db'"
      using assms Create Inr res
      by (intro consistent_createOfferingTxn [of db data env refs db'])
         (simp_all add: dates_agree_def)
    then show ?thesis using Create Inr res by simp
  qed
next
  case (Transition r st fid now)
  then show ?thesis
    using assms(1) by (simp add: consistent_updateStatusTxn)
qed

lemma consistent_run_ops:
  assumes "consistent db" and "\<forall>op \<in> set ops. dates_agree op"
  shows "consistent (run_ops ops db)"
  using assms unfolding run_ops_def
  by (induction ops arbitrary: db) (simp_all add: consistent_apply_op)

text \<open>
  When every creation files its transaction under the date of its \<open>created_at\<close>, the
  invariant holds after any sequence of creations and transitions from the empty store:
  each step preserves it (\<open>consistent_createOfferingTxn\<close>, \<open>consistent_updateStatusTxn\<close>).
\<close>

lemma aggregate_consistency_when_dates_agree:
  assumes "\<forall>op \<in> set ops. dates_agree op"
  shows "consistent (run_ops ops (empty_ledger cats))"
  using consistent_empty_ledger assms by (rule consistent_run_ops)

lemma aggregate_rows_when_dates_agree:
  assumes "\<forall>op \<in> set ops. dates_agree op"
    and "daily_summaries (run_ops ops (empty_ledger cats)) key = Some agg"
  shows "total_count agg = int (length (bucket (run_ops ops (empty_ledger cats)) key))
       \<and> total_amount agg = amount_sum (map amount (bucket (run_ops ops (empty_ledger cats)) key))
       \<and> success_count agg = count_status ''SUCCESSFUL'' (bucket (run_ops ops (empty_ledger cats)) key)
       \<and> failed_count agg = count_status ''FAILED'' (bucket (run_ops ops (empty_ledger cats)) key)"
proof -
  have "bucket_consistent (run_ops ops (empty_ledger cats)) key"
    using aggregate_consistency_when_dates_agree [OF assms(1), of cats]
    by (cases key) (simp add: consistent_def)
  then show ?thesis
    using assms(2) by (simp add: bucket_consistent_def)
qed

lemma replicate_two: "replicate 2 c = [c, c]"
  by (simp add: numeral_2_eq_2)

lemmas eval_reference =
  generateReference_def getTodayDateString_def countTodayByCategory_def padStart_def
  string_of_nat.simps digit_char_def summaryDate_of_def replicate_two Let_def

lemma create_after_midnight:
  "createOfferingTxn tithe_data (after_midnight ''uuid-0001'' ''2026-02-11 23:30:00'')
     new_ledger =
   Inr ((''TITHE-2026-0212-001'', ''uuid-0001''), midnight_ledger)"
  by (simp add: createOfferingTxn_def insertOffering_def upsertDailySummary_def
      new_ledger_def empty_ledger_def seed_categories_def tithe_data_def after_midnight_def or_null_def
      midnight_ledger_def midnight_row_def eval_reference)

lemma midnight_run:
  "run_ops midnight_ops new_ledger =
     midnight_ledger\<lparr>offerings :=
       [midnight_row\<lparr>status := ''SUCCESSFUL'', financial_txn_id := Some ''FT1'',
                     updated_at := ''2026-02-11 23:31:00''\<rparr>]\<rparr>"
  by (simp add: run_ops_def midnight_ops_def create_after_midnight)
     (simp add: updateStatusTxn_def getOfferingByRef_def midnight_ledger_def midnight_row_def
        updateOfferingStatus_def updateDailySummaryCounters_def getStatusDelta_def
        summaryDate_of_def or_null_def)

text \<open>
  Claim C1 (aggregate consistency) is not met by the code once the date of the local clock
  differs from the UTC date of \<open>created_at\<close>. The creation after local midnight counts the
  tithe in the bucket of 2026-02-12; the transition finds the bucket from \<open>created_at\<close>,
  2026-02-11, where no row exists, and updates nothing. The transaction ends
  \<^verbatim>\<open>SUCCESSFUL\<close> while the only aggregate row, with \<open>total_count = 1\<close>, keeps
  \<open>success_count = 0\<close>; the store is not consistent.
\<close>

theorem aggregate_consistency_local_date:
  "map status (offerings (run_ops midnight_ops new_ledger)) = [''SUCCESSFUL'']
   \<and> map created_at (offerings (run_ops midnight_ops new_ledger))
       = [''2026-02-11 23:30:00'']
   \<and> daily_summaries (run_ops midnight_ops new_ledger)
         (''2026-02-12'', ''TITHE'')
       = Some \<lparr>total_count = 1, total_amount = 50, success_count = 0, failed_count = 0\<rparr>
   \<and> daily_summaries (run_ops midnight_ops new_ledger)
         (''2026-02-11'', ''TITHE'') = None
   \<and> \<not> consistent (run_ops midnight_ops new_ledger)"
proof -
  have "\<not> bucket_consistent (run_ops midnight_ops new_ledger)
          (''2026-02-11'', ''TITHE'')"
    unfolding midnight_run
    by (simp add: bucket_consistent_def bucket_def midnight_ledger_def midnight_row_def
        summaryDate_of_def)
  then have "\<not> consistent (run_ops midnight_ops new_ledger)"
    unfolding consistent_def by blast
  then show ?thesis
    unfolding midnight_run by (simp add: midnight_ledger_def midnight_row_def)
qed

lemma midnight_lookup:
  "getOfferingByRef midnight_ledger ''TITHE-2026-0212-001'' = Some midnight_row"
  by (simp add: getOfferingByRef_def midnight_ledger_def midnight_row_def)

text \<open>
  Claim C3 (generic delta rule) is not met by the code for a transaction created while the
  date of the local clock differs from the UTC date of \<open>created_at\<close>. The creation after
  local midnight leaves the aggregate row under 2026-02-12; \<open>updateStatusTxn\<close> addresses
  the bucket of \<open>created_at\<close>, 2026-02-11, where the store has no row. The transition from
  \<^verbatim>\<open>PENDING\<close> to \<^verbatim>\<open>SUCCESSFUL\<close> reports \<open>changed = True\<close> and increments no
  \<open>success_count\<close>; the transition from \<^verbatim>\<open>SUCCESSFUL\<close> to \<^verbatim>\<open>FAILED\<close> that follows
  reports \<open>changed = True\<close> and gives neither \<open>success_count - 1\<close> nor
  \<open>failed_count + 1\<close>: every aggregate stays as the creation left it.
\<close>

theorem delta_rule_missing_bucket:
  "createOfferingTxn tithe_data (after_midnight ''uuid-0001'' ''2026-02-11 23:30:00'')
     new_ledger = Inr ((''TITHE-2026-0212-001'', ''uuid-0001''), midnight_ledger)
   \<and> fst (updateStatusTxn ''TITHE-2026-0212-001'' ''SUCCESSFUL'' (Some ''FT1'')
          ''2026-02-11 23:31:00'' midnight_ledger)
       = Some \<lparr>res_offering = midnight_row\<lparr>status := ''SUCCESSFUL'',
                                               financial_txn_id := Some ''FT1''\<rparr>,
                changed = True\<rparr>
   \<and> daily_summaries (snd (updateStatusTxn ''TITHE-2026-0212-001'' ''SUCCESSFUL''
          (Some ''FT1'') ''2026-02-11 23:31:00'' midnight_ledger))
       = daily_summaries midnight_ledger
   \<and> fst (updateStatusTxn ''TITHE-2026-0212-001'' ''FAILED'' None ''2026-02-11 23:32:00''
          (snd (updateStatusTxn ''TITHE-2026-0212-001'' ''SUCCESSFUL'' (Some ''FT1'')
             ''2026-02-11 23:31:00'' midnight_ledger)))
       = Some \<lparr>res_offering = midnight_row\<lparr>status := ''FAILED'', financial_txn_id := None,
                                               updated_at := ''2026-02-11 23:31:00''\<rparr>,
                changed = True\<rparr>
   \<and> daily_summaries
         (snd (updateStatusTxn ''TITHE-2026-0212-001'' ''FAILED'' None ''2026-02-11 23:32:00''
            (snd (updateStatusTxn ''TITHE-2026-0212-001'' ''SUCCESSFUL'' (Some ''FT1'')
               ''2026-02-11 23:31:00'' midnight_ledger))))
       = daily_summaries midnight_ledger
   \<and> daily_summaries midnight_ledger (''2026-02-12'', ''TITHE'')
       = Some \<lparr>total_count = 1, total_amount = 50, success_count = 0, failed_count = 0\<rparr>
   \<and> daily_summaries midnight_ledger
         (summaryDate_of (created_at midnight_row), category_code midnight_row) = None"
proof -
  have absent: "daily_summaries midnight_ledger
      (summaryDate_of (created_at midnight_row), category_code midnight_row) = None"
    by (simp add: midnight_ledger_def midnight_row_def summaryDate_of_def)
  have present: "daily_summaries midnight_ledger (''2026-02-12'', ''TITHE'')
       = Some \<lparr>total_count = 1, total_amount = 50, success_count = 0, failed_count = 0\<rparr>"
    by (simp add: midnight_ledger_def)
  have pending: "status midnight_row \<noteq> ''SUCCESSFUL''"
    by (simp add: midnight_row_def)
  let ?db1 = "snd (updateStatusTxn ''TITHE-2026-0212-001'' ''SUCCESSFUL'' (Some ''FT1'')
             ''2026-02-11 23:31:00'' midnight_ledger)"
  let ?row1 = "midnight_row\<lparr>status := ''SUCCESSFUL'', financial_txn_id := Some ''FT1'',
                           updated_at := ''2026-02-11 23:31:00''\<rparr>"
  have first: "fst (updateStatusTxn ''TITHE-2026-0212-001'' ''SUCCESSFUL'' (Some ''FT1'')
          ''2026-02-11 23:31:00'' midnight_ledger)
       = Some \<lparr>res_offering = midnight_row\<lparr>status := ''SUCCESSFUL'',
                                               financial_txn_id := Some ''FT1''\<rparr>,
                changed = True\<rparr>"
    by (simp add: updateStatusTxn_changes [OF midnight_lookup pending])
  have ds1: "daily_summaries ?db1 = daily_summaries midnight_ledger"
    using midnight_lookup absent by (rule daily_summaries_after_change_None)
  have lookup1: "getOfferingByRef ?db1 ''TITHE-2026-0212-001'' = Some ?row1"
    by (simp add: updateStatusTxn_changes [OF midnight_lookup pending]
        getOfferingByRef_updateOfferingStatus midnight_lookup or_null_def)
  have settled: "status ?row1 \<noteq> ''FAILED''"
    by simp
  have second: "fst (updateStatusTxn ''TITHE-2026-0212-001'' ''FAILED'' None
          ''2026-02-11 23:32:00'' ?db1)
       = Some \<lparr>res_offering = ?row1\<lparr>status := ''FAILED'', financial_txn_id := None\<rparr>,
                changed = True\<rparr>"
    by (simp add: updateStatusTxn_changes [OF lookup1 settled])
  have absent1: "daily_summaries ?db1
      (summaryDate_of (created_at ?row1), category_code ?row1) = None"
    using absent by (simp add: ds1)
  have ds2: "daily_summaries (snd (updateStatusTxn ''TITHE-2026-0212-001'' ''FAILED'' None
          ''2026-02-11 23:32:00'' ?db1)) = daily_summaries midnight_ledger"
    using daily_summaries_after_change_None [OF lookup1 absent1, of "''FAILED''" None
        "''2026-02-11 23:32:00''"]
    by (simp add: ds1)
  show ?thesis
    using create_after_midnight first ds1 second ds2 present absent
    by (simp add: midnight_row_def)
qed

section \<open>Properties of creation\<close>

lemma createOfferingTxn_fresh:
  assumes "generateReference (ref_clock env) db (d_category data)
             \<notin> set (map reference_number (offerings db))"
    and "uuid env \<notin> set (map momo_reference_id (offerings db))"
    and "d_category data \<in> set (map fst (categories db))"
  shows "\<exists>db'. createOfferingTxn data env db =
           Inr ((generateReference (ref_clock env) db (d_category data), uuid env), db')"
  using assms by (simp add: createOfferingTxn_def insertOffering_def Let_def)

lemma getCategoryByCode_SomeD:
  "getCategoryByCode db code = Some cat \<Longrightarrow> code \<in> set (map fst (categories db))"
  unfolding getCategoryByCode_def by (drule find_SomeD) auto

text \<open>
  What does hold of creation. For a request that passes validation (phone, positive
  amount, known category) and whose generated reference and correlation id are not yet
  stored, the handler answers 202 with status \<^verbatim>\<open>PENDING\<close> whatever the payment client
  does; the store gains the transaction row in status \<^verbatim>\<open>PENDING\<close> and the aggregate row
  of (local date, category) gains one in \<open>total_count\<close> and the amount in
  \<open>total_amount\<close>; when the submission is accepted the retry queue is unchanged, and
  when it fails the queue gains one entry for the new reference, never attempted, and the
  answer carries the error message.
\<close>

theorem creation_robust:
  assumes phone: "or_null (b_phone body) = Some phone"
    and amt: "b_amount body = AmountNum amt" "\<not> amt \<le> 0"
    and category: "or_null (b_category body) = Some category"
    and cat: "getCategoryByCode db category = Some cat"
    and fresh: "generateReference (ref_clock env) db category
                  \<notin> set (map reference_number (offerings db))"
      "uuid env \<notin> set (map momo_reference_id (offerings db))"
  shows "let refNumber = generateReference (ref_clock env) db category;
             message = (case or_null (b_note body) of
                          None \<Rightarrow> snd cat @ '' Offering'' | Some n \<Rightarrow> n);
             outcome = requestToPay
                         \<lparr>pr_amount = amt, pr_phone = phone, pr_referenceNumber = refNumber,
                          pr_message = message, pr_momoReferenceId = uuid env\<rparr>;
             res = post_offerings requestToPay env queue_clock body db
         in fst res = CrAccepted refNumber (uuid env) ''PENDING''
                        (case outcome of PayAccepted \<Rightarrow> None | PayFailed err \<Rightarrow> or_null (Some err))
          \<and> offerings (snd res) = offerings db @
                [\<lparr>reference_number = refNumber, momo_reference_id = uuid env,
                  financial_txn_id = None, category_code = category, amount = amt,
                  currency = ''GHS'', phone_number = phone,
                  member_name = or_null (b_memberName body), member_id = None,
                  payer_message = or_null (b_note body), status = ''PENDING'',
                  created_at = db_clock env, updated_at = db_clock env\<rparr>]
          \<and> daily_summaries (snd res) =
                (daily_summaries db)((getTodayDateString (today_clock env), category) \<mapsto>
                  (case daily_summaries db (getTodayDateString (today_clock env), category) of
                     None \<Rightarrow> \<lparr>total_count = 1, total_amount = amt, success_count = 0,
                              failed_count = 0\<rparr>
                   | Some row \<Rightarrow> row\<lparr>total_count := total_count row + 1,
                                      total_amount := total_amount row + amt\<rparr>))
          \<and> pending_queue (snd res) =
                (case outcome of
                   PayAccepted \<Rightarrow> pending_queue db
                 | PayFailed err \<Rightarrow> pending_queue db @
                     [\<lparr>q_id = queue_seq db + 1, q_reference_number = refNumber,
                       q_momo_reference_id = uuid env, q_amount = amt, q_phone_number = phone,
                       q_payer_message = Some message, q_retry_count = 0,
                       q_last_attempt_at = None, q_created_at = queue_clock\<rparr>])"
proof -
  let ?data = "\<lparr>d_phone = phone, d_amount = amt, d_category = category,
                d_memberName = b_memberName body, d_note = b_note body\<rparr>"
  let ?ref = "generateReference (ref_clock env) db category"
  have fk: "category \<in> set (map fst (categories db))"
    using cat by (rule getCategoryByCode_SomeD)
  obtain db1 where run: "createOfferingTxn ?data env db = Inr ((?ref, uuid env), db1)"
    using createOfferingTxn_fresh [of env db ?data] fresh fk by auto
  note facts = createOfferingTxn_InrD [OF run]
  have ref1: "?ref \<in> set (map reference_number (offerings db1))"
    using facts(5) by simp
  have ds1: "daily_summaries db1 =
      (daily_summaries db)((getTodayDateString (today_clock env), category) \<mapsto>
        (case daily_summaries db (getTodayDateString (today_clock env), category) of
           None \<Rightarrow> \<lparr>total_count = 1, total_amount = amt, success_count = 0,
                    failed_count = 0\<rparr>
         | Some row \<Rightarrow> row\<lparr>total_count := total_count row + 1,
                            total_amount := total_amount row + amt\<rparr>))"
    using facts(6)
    by (cases "daily_summaries db (getTodayDateString (today_clock env), category)") simp_all
  have offs1: "offerings db1 = offerings db @
                [\<lparr>reference_number = ?ref, momo_reference_id = uuid env,
                  financial_txn_id = None, category_code = category, amount = amt,
                  currency = ''GHS'', phone_number = phone,
                  member_name = or_null (b_memberName body), member_id = None,
                  payer_message = or_null (b_note body), status = ''PENDING'',
                  created_at = db_clock env, updated_at = db_clock env\<rparr>]"
    using facts(5) by simp
  show ?thesis
    using phone amt category cat run ref1 facts(7,8)
    by (simp add: post_offerings_def insertPendingQueue_def Let_def ds1 offs1
        split: pay_outcome.splits)
qed

theorem creation_robust_witness:
  "or_null (b_phone tithe_body) = Some ''0241234567''
   \<and> b_amount tithe_body = AmountNum 50 \<and> \<not> (50 :: real) \<le> 0
   \<and> or_null (b_category tithe_body) = Some ''TITHE''
   \<and> getCategoryByCode new_ledger ''TITHE'' = Some (''TITHE'', ''Tithes'')
   \<and> fst (post_offerings momo_rejects (after_midnight ''uuid-0001'' ''2026-02-11 23:30:00'') 77
        tithe_body new_ledger)
      = CrAccepted ''TITHE-2026-0212-001'' ''uuid-0001'' ''PENDING'' (Some ''fetch failed'')
   \<and> map status (offerings (snd (post_offerings momo_rejects
        (after_midnight ''uuid-0001'' ''2026-02-11 23:30:00'') 77 tithe_body
        new_ledger))) = [''PENDING'']
   \<and> map q_reference_number (pending_queue (snd (post_offerings momo_rejects
        (after_midnight ''uuid-0001'' ''2026-02-11 23:30:00'') 77 tithe_body
        new_ledger))) = [''TITHE-2026-0212-001'']"
proof -
  let ?env = "after_midnight ''uuid-0001'' ''2026-02-11 23:30:00''"
  let ?db = "new_ledger"
  have body: "or_null (b_phone tithe_body) = Some ''0241234567''"
    "b_amount tithe_body = AmountNum 50" "\<not> (50 :: real) \<le> 0"
    "or_null (b_category tithe_body) = Some ''TITHE''"
    by (simp_all add: tithe_body_def or_null_def)
  have cat: "getCategoryByCode ?db ''TITHE'' = Some (''TITHE'', ''Tithes'')"
    by (simp add: getCategoryByCode_def new_ledger_def empty_ledger_def seed_categories_def)
  have ref: "generateReference (ref_clock ?env) ?db ''TITHE'' = ''TITHE-2026-0212-001''"
    by (simp add: after_midnight_def new_ledger_def empty_ledger_def eval_reference)
  have fresh: "generateReference (ref_clock ?env) ?db ''TITHE''
                  \<notin> set (map reference_number (offerings ?db))"
      "uuid ?env \<notin> set (map momo_reference_id (offerings ?db))"
    by (simp_all add: new_ledger_def empty_ledger_def)
  have env: "uuid ?env = ''uuid-0001''"
    by (simp add: after_midnight_def)
  have db: "offerings ?db = []" "pending_queue ?db = []"
    by (simp_all add: new_ledger_def empty_ledger_def)
  let ?res = "post_offerings momo_rejects ?env 77 tithe_body ?db"
  have r: "fst ?res = CrAccepted ''TITHE-2026-0212-001'' ''uuid-0001'' ''PENDING''
                        (Some ''fetch failed'')"
    "map status (offerings (snd ?res)) = [''PENDING'']"
    "map q_reference_number (pending_queue (snd ?res)) = [''TITHE-2026-0212-001'']"
    using creation_robust [OF body cat fresh, of momo_rejects 77]
    by (simp_all add: Let_def ref momo_rejects_def or_null_def env db)
  show ?thesis
    using body cat r by simp
qed

lemma create_again_after_midnight:
  "createOfferingTxn tithe_data (after_midnight ''uuid-0002'' ''2026-02-11 23:31:00'')
     midnight_ledger = Inl UniqueViolation"
  by (simp add: createOfferingTxn_def insertOffering_def tithe_data_def after_midnight_def
      midnight_ledger_def midnight_row_def eval_reference)

text \<open>
  Claim C8 (creation robustness) does not hold for every request that passes validation:
  \<open>createOfferingTxn\<close> throws when the generated reference (or the UUID) is already
  stored, and the handler answers 500 with nothing persisted. Here a second valid request
  arrives one minute after the first; \<open>generateReference\<close> counts the transactions whose
  \<open>created_at\<close> falls on the local date, finds none, and issues the first reference again.
\<close>

theorem creation_reused_reference:
  "post_offerings momo_accepts (after_midnight ''uuid-0001'' ''2026-02-11 23:30:00'') 0
     tithe_body new_ledger
   = (CrAccepted ''TITHE-2026-0212-001'' ''uuid-0001'' ''PENDING'' None, midnight_ledger)
   \<and> post_offerings momo_accepts (after_midnight ''uuid-0002'' ''2026-02-11 23:31:00'') 0
       tithe_body midnight_ledger
     = (CrInternalError ''Internal server error'', midnight_ledger)"
proof -
  have data: "\<lparr>d_phone = ''0241234567'', d_amount = 50, d_category = ''TITHE'',
      d_memberName = b_memberName tithe_body, d_note = b_note tithe_body\<rparr> = tithe_data"
    by (simp add: tithe_data_def tithe_body_def)
  have cat0: "getCategoryByCode new_ledger ''TITHE'' = Some (''TITHE'', ''Tithes'')"
    by (simp add: getCategoryByCode_def new_ledger_def empty_ledger_def seed_categories_def)
  have cat1: "getCategoryByCode midnight_ledger ''TITHE'' = Some (''TITHE'', ''Tithes'')"
    by (simp add: getCategoryByCode_def midnight_ledger_def seed_categories_def)
  have body: "or_null (b_phone tithe_body) = Some ''0241234567''"
    "b_amount tithe_body = AmountNum 50" "or_null (b_category tithe_body) = Some ''TITHE''"
    by (simp_all add: tithe_body_def or_null_def)
  show ?thesis
    by (simp add: post_offerings_def body cat0 cat1 data create_after_midnight
        create_again_after_midnight momo_accepts_def)
qed

end
